theory Spec2Isabelle
  imports Main
begin

section \<open>JavaScript values of the request and of the collaborators' answers\<close>

text \<open>
  The server reads a JSON body and JSON answers of its HTTP collaborators. A JSON value
  is modelled by \<open>jsval\<close>. A number is kept as its ECMAScript \<open>ToString\<close> rendering
  (\<open>JNum ''101''\<close>, \<open>JNum ''-1''\<close>, \<open>JNum ''0.2''\<close>): the server looks at a number
  only through its truthiness, through \<open>parseInt\<close> and template strings (both start
  with \<open>ToString\<close>) and through a comparison with zero. An object is the list of its
  own properties. A string is the list of the bytes of its UTF-8 encoding (an unpaired
  surrogate in the three bytes of its code unit): ASCII text is itself, and the server
  joins strings only with ASCII text in between, so that the bytes of a template string
  are the bytes of its parts.
\<close>

datatype jsval =
    JUndefined
  | JNull
  | JBool bool
  | JNum string
  | JStr string
  | JArr "jsval list"
  | JObj "(string \<times> jsval) list"

text \<open>
  The result of \<open>parseInt\<close>, a double: not-a-number, an integer that a double holds,
  the negative zero, or an infinity.
\<close>

datatype jsnum = NaN | Fin int | MinusZero | Infinity | MinusInfinity

text \<open>
  Errors raised by the engine and by Node's library on ill-typed operands. Their
  message text belongs to the engine, so it is a parameter of the model.
\<close>

datatype engine_fault =
    NotPrimitive
  | NotAFunction string
  | ReadOfNullish string
  | InvalidHashArg

datatype js_error = Error string | TypeError engine_fault

text \<open>Values of the SDK's types \<open>Address\<close> and \<open>Hex\<close>: the text after the \<open>0x\<close>.\<close>

datatype hex = Hex string

fun render_hex :: "hex \<Rightarrow> string" where
  "render_hex (Hex s) = ''0x'' @ s"

text \<open>\<open>ToBoolean\<close>: what \<open>if (v)\<close>, \<open>!v\<close>, \<open>v && w\<close>, \<open>v || w\<close> and \<open>v ? a : b\<close> test.\<close>

fun truthy :: "jsval \<Rightarrow> bool" where
  "truthy JUndefined = False"
| "truthy JNull = False"
| "truthy (JBool b) = b"
| "truthy (JNum r) = (r \<noteq> ''0'' \<and> r \<noteq> ''NaN'')"
| "truthy (JStr s) = (s \<noteq> [])"
| "truthy (JArr xs) = True"
| "truthy (JObj kvs) = True"

text \<open>\<open>a || b\<close> on values.\<close>

definition js_or :: "jsval \<Rightarrow> jsval \<Rightarrow> jsval" where
  "js_or a b = (if truthy a then a else b)"

text \<open>
  Reading a property that no prototype defines (\<open>data\<close>, \<open>depthData\<close>, \<open>IpfsHash\<close>,
  \<open>ip\<close>, \<open>tx_hash\<close>): a \<open>TypeError\<close> on \<open>null\<close> and \<open>undefined\<close>, the own property of
  an object, \<open>undefined\<close> on every other value.
\<close>

fun get_prop :: "jsval \<Rightarrow> string \<Rightarrow> js_error + jsval" where
  "get_prop JUndefined k = Inl (TypeError (ReadOfNullish k))"
| "get_prop JNull k = Inl (TypeError (ReadOfNullish k))"
| "get_prop (JObj kvs) k = Inr (case map_of kvs k of Some v \<Rightarrow> v | None \<Rightarrow> JUndefined)"
| "get_prop v k = Inr JUndefined"

text \<open>
  \<open>ToString\<close>, as a template string \<open>`${v}`\<close> and \<open>v.toString()\<close> apply it. An
  array joins the renderings of its elements with commas, \<open>null\<close> and \<open>undefined\<close>
  elements rendering as the empty string. An object parsed from JSON has no callable
  property of its own: with an own property \<open>toString\<close> the conversion finds no method
  that returns a primitive and raises a \<open>TypeError\<close>; otherwise it is
  \<open>Object.prototype.toString\<close>.
\<close>

fun toString_js :: "jsval \<Rightarrow> js_error + string"
  and join_js :: "jsval list \<Rightarrow> js_error + string"
  and element_js :: "jsval \<Rightarrow> js_error + string" where
  "toString_js JUndefined = Inr ''undefined''"
| "toString_js JNull = Inr ''null''"
| "toString_js (JBool b) = Inr (if b then ''true'' else ''false'')"
| "toString_js (JNum r) = Inr r"
| "toString_js (JStr s) = Inr s"
| "toString_js (JArr xs) = join_js xs"
| "toString_js (JObj kvs) =
     (if ''toString'' \<in> fst ` set kvs then Inl (TypeError NotPrimitive)
      else Inr ''[object Object]'')"
| "join_js [] = Inr ''''"
| "join_js [x] = element_js x"
| "join_js (x # y # ys) =
     (case element_js x of
        Inl e \<Rightarrow> Inl e
      | Inr s \<Rightarrow> (case join_js (y # ys) of Inl e \<Rightarrow> Inl e | Inr t \<Rightarrow> Inr (s @ '','' @ t)))"
| "element_js JUndefined = Inr ''''"
| "element_js JNull = Inr ''''"
| "element_js (JBool b) = toString_js (JBool b)"
| "element_js (JNum r) = toString_js (JNum r)"
| "element_js (JStr s) = toString_js (JStr s)"
| "element_js (JArr xs) = toString_js (JArr xs)"
| "element_js (JObj kvs) = toString_js (JObj kvs)"

text \<open>
  The method call \<open>v.toString()\<close> on a truthy value: an object with an own property
  \<open>toString\<close>, which is not a function, makes the call itself a \<open>TypeError\<close>;
  every other value has the \<open>toString\<close> of its prototype, which renders as above.
\<close>

definition call_toString :: "jsval \<Rightarrow> js_error + string" where
  "call_toString v =
     (case v of
        JObj kvs \<Rightarrow>
          (if ''toString'' \<in> fst ` set kvs then Inl (TypeError (NotAFunction ''toString''))
           else Inr ''[object Object]'')
      | _ \<Rightarrow> toString_js v)"

subsection \<open>\<open>parseInt\<close>\<close>

text \<open>
  \<open>parseInt(v)\<close> with no radix: \<open>ToString(v)\<close>, leading white space dropped, an
  optional sign, an optional \<open>0x\<close>/\<open>0X\<close> that selects radix 16, then the longest run of
  digits of the radix; no digit gives \<open>NaN\<close>. The value of the digits is rounded to the
  nearest double, ties to the even one, and beyond the largest double it is an infinity.

  White space is what ECMAScript calls \<open>WhiteSpace\<close> and \<open>LineTerminator\<close>: the code
  points 9 to 13 and 32, U+00A0, U+1680, U+2000 to U+200A, U+2028, U+2029, U+202F,
  U+205F, U+3000 and U+FEFF, here in their UTF-8 bytes.
\<close>

definition one_byte_spaces :: "string list" where
  "one_byte_spaces =
     [[CHR 0x09], [CHR 0x0A], [CHR 0x0B], [CHR 0x0C], [CHR 0x0D], [CHR 0x20]]"

definition three_byte_spaces :: "string list" where
  "three_byte_spaces =
     [[CHR 0xE1, CHR 0x9A, CHR 0x80],
      [CHR 0xE2, CHR 0x80, CHR 0x80], [CHR 0xE2, CHR 0x80, CHR 0x81],
      [CHR 0xE2, CHR 0x80, CHR 0x82], [CHR 0xE2, CHR 0x80, CHR 0x83],
      [CHR 0xE2, CHR 0x80, CHR 0x84], [CHR 0xE2, CHR 0x80, CHR 0x85],
      [CHR 0xE2, CHR 0x80, CHR 0x86], [CHR 0xE2, CHR 0x80, CHR 0x87],
      [CHR 0xE2, CHR 0x80, CHR 0x88], [CHR 0xE2, CHR 0x80, CHR 0x89],
      [CHR 0xE2, CHR 0x80, CHR 0x8A],
      [CHR 0xE2, CHR 0x80, CHR 0xA8], [CHR 0xE2, CHR 0x80, CHR 0xA9],
      [CHR 0xE2, CHR 0x80, CHR 0xAF], [CHR 0xE2, CHR 0x81, CHR 0x9F],
      [CHR 0xE3, CHR 0x80, CHR 0x80], [CHR 0xEF, CHR 0xBB, CHR 0xBF]]"

text \<open>The number of bytes of the white space character a string starts with, or 0.\<close>

definition white_space_width :: "string \<Rightarrow> nat" where
  "white_space_width s =
     (if take 1 s \<in> set one_byte_spaces then 1
      else if take 2 s = [CHR 0xC2, CHR 0xA0] then 2
      else if take 3 s \<in> set three_byte_spaces then 3
      else 0)"

function skip_white_space :: "string \<Rightarrow> string" where
  "skip_white_space s =
     (if white_space_width s = 0 then s
      else skip_white_space (drop (white_space_width s) s))"
  by pat_completeness auto
termination
proof (relation "measure length")
  show "wf (measure length)"
    by simp
  fix s :: string
  assume w: "white_space_width s \<noteq> 0"
  have "white_space_width [] = 0"
    by (simp add: white_space_width_def one_byte_spaces_def three_byte_spaces_def)
  with w have "s \<noteq> []"
    by auto
  with w show "(drop (white_space_width s) s, s) \<in> measure length"
    by simp
qed

declare skip_white_space.simps [simp del]

definition digit_val :: "char \<Rightarrow> nat option" where
  "digit_val c =
     (let n = of_char c :: nat in
      if 48 \<le> n \<and> n \<le> 57 then Some (n - 48)
      else if 97 \<le> n \<and> n \<le> 102 then Some (n - 87)
      else if 65 \<le> n \<and> n \<le> 70 then Some (n - 55)
      else None)"

definition is_digit :: "nat \<Rightarrow> char \<Rightarrow> bool" where
  "is_digit radix c = (case digit_val c of Some d \<Rightarrow> d < radix | None \<Rightarrow> False)"

definition digits_value :: "nat \<Rightarrow> string \<Rightarrow> nat" where
  "digits_value radix z =
     foldl (\<lambda>acc c. case digit_val c of Some d \<Rightarrow> acc * radix + d | None \<Rightarrow> acc) 0 z"

text \<open>
  The double nearest to a natural number, \<open>None\<close> when that is beyond the largest
  double: a number below \<open>2^53\<close> is a double; a larger one keeps its 53 leading bits,
  rounded on the bits that are dropped.
\<close>

fun bit_length :: "nat \<Rightarrow> nat" where
  "bit_length n = (if n = 0 then 0 else Suc (bit_length (n div 2)))"

declare bit_length.simps [simp del]

definition round_to_double :: "nat \<Rightarrow> nat option" where
  "round_to_double n =
     (if n < 9007199254740992 then Some n
      else
        let e = bit_length n - 53;
            q = n div 2 ^ e;
            r = n mod 2 ^ e;
            half = 2 ^ (e - 1);
            m = (if r > half \<or> (r = half \<and> odd q) then q + 1 else q) * 2 ^ e
        in if m \<ge> 2 ^ 1024 then None else Some m)"

definition parse_digits :: "bool \<Rightarrow> nat \<Rightarrow> string \<Rightarrow> jsnum" where
  "parse_digits negative radix s =
     (let z = takeWhile (is_digit radix) s in
      if z = [] then NaN
      else
        (case round_to_double (digits_value radix z) of
           None \<Rightarrow> (if negative then MinusInfinity else Infinity)
         | Some m \<Rightarrow>
             if negative then (if m = 0 then MinusZero else Fin (- int m))
             else Fin (int m)))"

definition strip_prefix :: "bool \<Rightarrow> string \<Rightarrow> jsnum" where
  "strip_prefix negative s =
     (if take 2 s = ''0x'' \<or> take 2 s = ''0X'' then parse_digits negative 16 (drop 2 s)
      else parse_digits negative 10 s)"

definition parseInt_string :: "string \<Rightarrow> jsnum" where
  "parseInt_string input =
     (let s = skip_white_space input in
      case s of
        [] \<Rightarrow> NaN
      | c # cs \<Rightarrow>
          if c = CHR ''-'' then strip_prefix True cs
          else if c = CHR ''+'' then strip_prefix False cs
          else strip_prefix False s)"

definition parseInt :: "jsval \<Rightarrow> js_error + jsnum" where
  "parseInt v = (case toString_js v of Inl e \<Rightarrow> Inl e | Inr s \<Rightarrow> Inr (parseInt_string s))"

text \<open>\<open>x < k\<close> and \<open>x > k\<close> on a number: every comparison with \<open>NaN\<close> is false.\<close>

fun num_lt :: "jsnum \<Rightarrow> int \<Rightarrow> bool" where
  "num_lt NaN k = False"
| "num_lt (Fin n) k = (n < k)"
| "num_lt MinusZero k = (0 < k)"
| "num_lt Infinity k = False"
| "num_lt MinusInfinity k = True"

fun num_gt :: "jsnum \<Rightarrow> int \<Rightarrow> bool" where
  "num_gt NaN k = False"
| "num_gt (Fin n) k = (n > k)"
| "num_gt MinusZero k = (0 > k)"
| "num_gt Infinity k = True"
| "num_gt MinusInfinity k = False"

text \<open>Decimal rendering of a natural number (\<open>`${Date.now()}`\<close>).\<close>

definition digit_char :: "nat \<Rightarrow> char" where
  "digit_char n = ''0123456789'' ! (n mod 10)"

fun show_nat :: "nat \<Rightarrow> string" where
  "show_nat n =
     (if n < 10 then [digit_char n]
      else show_nat (n div 10) @ [digit_char n])"

declare show_nat.simps [simp del]

section \<open>Documents, collaborators and process state\<close>

text \<open>
  The asset metadata document is the object given to the SDK's \<open>generateIpMetadata\<close>,
  which returns the fields it is given; the collectible document is the object literal
  \<open>nftMetadata\<close>.
\<close>

record creator =
  c_name :: string
  c_address :: jsval
  c_contributionPercent :: nat

record ip_metadata =
  ip_title :: string
  ip_description :: string
  ip_createdAt :: string
  ip_creators :: "creator list"
  ip_image :: string
  ip_imageHash :: string
  ip_mediaUrl :: string
  ip_mediaHash :: string
  ip_mediaType :: string
  ip_attributes :: "(string \<times> jsval) list"

record nft_metadata =
  nft_name :: string
  nft_description :: string
  nft_image :: string
  nft_animation_url :: "string option"
  nft_external_url :: string
  nft_attributes :: "(string \<times> jsval) list"

datatype document = AssetDoc ip_metadata | CollectibleDoc nft_metadata

text \<open>
  The argument of \<open>registerIpAsset\<close>: a mint into the collection, the commercial-remix
  terms that \<open>PILFlavor.commercialRemix\<close> makes of the revenue share and the fee (the
  currency is fixed), and the two metadata addresses and hashes. The model takes the two
  SDK calls as one step: what the SDK does with these values, and whether it raises, is
  the outcome \<open>registerIpAsset\<close> of the environment.
\<close>

record register_request =
  a_spgNftContract :: hex
  a_commercialRevShare :: jsnum
  a_defaultMintingFee :: int
  a_ipMetadataURI :: string
  a_ipMetadataHash :: string
  a_nftMetadataURI :: string
  a_nftMetadataHash :: string

record register_response =
  resp_ipId :: hex
  resp_tokenId :: "nat option"
  resp_licenseTermsIds :: "nat list option"
  resp_txHash :: hex

record new_collection =
  nc_spgNftContract :: hex
  nc_txHash :: hex

text \<open>The calls the server makes to its collaborators, in the order it makes them.\<close>

datatype call =
    AxiosGet string
  | AxiosPost string document
  | AxiosPatch string "string \<times> string"
  | CreateNFTCollection
  | RegisterIpAsset register_request

text \<open>
  Everything the code takes from outside itself: the environment variables, the library
  functions it calls (\<open>createHash\<close>, \<open>JSON.stringify\<close>, viem's \<open>parseEther\<close>, the
  clock), the engine's message texts, and the outcome of every call to a collaborator
  (an error, or the \<open>data\<close> of the answer). \<open>clock\<close> gives what \<open>Date.now()\<close> reads
  at each place of the handler that reads it, \<open>string_gt_zero s\<close> is \<open>s > 0\<close> on a
  string.
\<close>

datatype clock_site =
    TitleTime
  | CreatedAtTime
  | NameTime
  | TimestampTime
  | ResponseTime
  | ErrorTime

record env =
  SUPABASE_URL :: "string option"
  SUPABASE_KEY :: "string option"
  IPFS_GATEWAY :: string
  DEFAULT_MINTING_FEE :: string
  DEFAULT_COMMERCIAL_REV_SHARE :: jsnum
  sha256_hex :: "string \<Rightarrow> string"
  stringify_ip :: "ip_metadata \<Rightarrow> string"
  stringify_nft :: "nft_metadata \<Rightarrow> string"
  parseEther :: "string \<Rightarrow> js_error + int"
  clock :: "clock_site \<Rightarrow> nat"
  toISOString :: "nat \<Rightarrow> string"
  engine_message :: "engine_fault \<Rightarrow> string"
  string_gt_zero :: "string \<Rightarrow> bool"
  axios_get :: "string \<Rightarrow> js_error + jsval"
  axios_post :: "document \<Rightarrow> js_error + jsval"
  axios_patch :: "string \<Rightarrow> string \<times> string \<Rightarrow> js_error + jsval"
  createNFTCollection :: "js_error + new_collection"
  registerIpAsset :: "register_request \<Rightarrow> js_error + register_response"

fun message :: "env \<Rightarrow> js_error \<Rightarrow> string" where
  "message env (Error m) = m"
| "message env (TypeError f) = engine_message env f"

text \<open>
  The process state: the module variable \<open>spgNftContract\<close> (\<open>null\<close> is \<open>None\<close>), and
  the calls made so far.
\<close>

record proc =
  spgNftContract :: "hex option"
  calls :: "call list"

type_synonym 'a io = "proc \<Rightarrow> (js_error + 'a) \<times> proc"

definition return_io :: "'a \<Rightarrow> 'a io" where
  "return_io x = (\<lambda>s. (Inr x, s))"

definition throw_io :: "js_error \<Rightarrow> 'a io" where
  "throw_io e = (\<lambda>s. (Inl e, s))"

definition bind_io :: "'a io \<Rightarrow> ('a \<Rightarrow> 'b io) \<Rightarrow> 'b io" where
  "bind_io m f = (\<lambda>s. case m s of (Inl e, s') \<Rightarrow> (Inl e, s') | (Inr x, s') \<Rightarrow> f x s')"

text \<open>\<open>try { m } catch (e) { h e }\<close>.\<close>

definition catch_io :: "'a io \<Rightarrow> (js_error \<Rightarrow> 'a io) \<Rightarrow> 'a io" where
  "catch_io m h = (\<lambda>s. case m s of (Inl e, s') \<Rightarrow> h e s' | (Inr x, s') \<Rightarrow> (Inr x, s'))"

text \<open>A computation without effect that may raise.\<close>

definition lift_io :: "js_error + 'a \<Rightarrow> 'a io" where
  "lift_io r = (\<lambda>s. (r, s))"

text \<open>A call to a collaborator: it is recorded, then it returns or raises.\<close>

definition perform :: "call \<Rightarrow> js_error + 'a \<Rightarrow> 'a io" where
  "perform c outcome = (\<lambda>s. (outcome, s\<lparr>calls := calls s @ [c]\<rparr>))"

section \<open>The helper functions of the server\<close>

text \<open>\<open>createHash('sha256').update(v).digest('hex')\<close>: \<open>update\<close> takes a string.\<close>

definition hash_update :: "env \<Rightarrow> jsval \<Rightarrow> js_error + string" where
  "hash_update env v =
     (case v of JStr s \<Rightarrow> Inr (sha256_hex env s) | _ \<Rightarrow> Inl (TypeError InvalidHashArg))"

text \<open>\<open>!SUPABASE_URL\<close> on an environment variable: unset or empty.\<close>

definition configured :: "string option \<Rightarrow> bool" where
  "configured v = (case v of None \<Rightarrow> False | Some s \<Rightarrow> s \<noteq> [])"

definition env_text :: "string option \<Rightarrow> string" where
  "env_text v = (case v of None \<Rightarrow> ''undefined'' | Some s \<Rightarrow> s)"

text \<open>\<open>ToNumber(v) > 0\<close>.\<close>

definition to_number_gt_zero :: "env \<Rightarrow> jsval \<Rightarrow> js_error + bool" where
  "to_number_gt_zero env v =
     (case v of
        JUndefined \<Rightarrow> Inr False
      | JNull \<Rightarrow> Inr False
      | JBool b \<Rightarrow> Inr b
      | JNum r \<Rightarrow> Inr (r \<noteq> ''0'' \<and> r \<noteq> ''NaN'' \<and> take 1 r \<noteq> ''-'')
      | JStr s \<Rightarrow> Inr (string_gt_zero env s)
      | _ \<Rightarrow> (case toString_js v of Inl e \<Rightarrow> Inl e | Inr s \<Rightarrow> Inr (string_gt_zero env s)))"

text \<open>\<open>data.length === 0\<close>, \<open>data.length > 0\<close> and \<open>data[0]\<close> on a truthy \<open>data\<close>.\<close>

definition length_is_zero :: "jsval \<Rightarrow> bool" where
  "length_is_zero v =
     (case v of
        JArr xs \<Rightarrow> xs = []
      | JStr s \<Rightarrow> s = []
      | JObj kvs \<Rightarrow> map_of kvs ''length'' = Some (JNum ''0'')
      | _ \<Rightarrow> False)"

definition length_gt_zero :: "env \<Rightarrow> jsval \<Rightarrow> js_error + bool" where
  "length_gt_zero env v =
     (case v of
        JArr xs \<Rightarrow> Inr (xs \<noteq> [])
      | JStr s \<Rightarrow> Inr (s \<noteq> [])
      | JObj kvs \<Rightarrow>
          to_number_gt_zero env (case map_of kvs ''length'' of Some l \<Rightarrow> l | None \<Rightarrow> JUndefined)
      | _ \<Rightarrow> Inr False)"

text \<open>
  The first UTF-16 code unit of a string, as a string: the first character where it
  takes one, two or three bytes, and the high surrogate of a character of four bytes, in
  the three bytes that hold a code unit of that range.
\<close>

definition first_code_unit :: "string \<Rightarrow> string" where
  "first_code_unit s =
     (case map of_char s :: nat list of
        [] \<Rightarrow> []
      | b0 # bs \<Rightarrow>
          if b0 < 128 then take 1 s
          else if b0 < 224 then take 2 s
          else if b0 < 240 then take 3 s
          else
            (let cp = (b0 mod 8) * 262144 + (bs ! 0 mod 64) * 4096 + (bs ! 1 mod 64) * 64
                      + bs ! 2 mod 64;
                 hi = 55296 + (cp - 65536) div 1024
             in [char_of (224 + hi div 4096), char_of (128 + hi div 64 mod 64),
                 char_of (128 + hi mod 64)]))"

definition index0 :: "jsval \<Rightarrow> jsval" where
  "index0 v =
     (case v of
        JArr xs \<Rightarrow> (case xs of [] \<Rightarrow> JUndefined | x # _ \<Rightarrow> x)
      | JStr s \<Rightarrow> (if s = [] then JUndefined else JStr (first_code_unit s))
      | JObj kvs \<Rightarrow> (case map_of kvs ''0'' of Some x \<Rightarrow> x | None \<Rightarrow> JUndefined)
      | _ \<Rightarrow> JUndefined)"

subsection \<open>\<open>fetchFromIPFS\<close>\<close>

definition fetchFromIPFS :: "env \<Rightarrow> jsval \<Rightarrow> jsval io" where
  "fetchFromIPFS env cid =
     bind_io (lift_io (toString_js cid)) (\<lambda>c.
       let url = IPFS_GATEWAY env @ ''/ipfs/'' @ c in
       catch_io (perform (AxiosGet url) (axios_get env url))
         (\<lambda>error. throw_io (Error (''Failed to fetch CID '' @ c @ '' from IPFS: ''
                                     @ message env error))))"

subsection \<open>\<open>uploadJSONToIPFS\<close>\<close>

definition pinata_url :: string where
  "pinata_url = ''https://api.pinata.cloud/pinning/pinJSONToIPFS''"

definition uploadJSONToIPFS :: "env \<Rightarrow> document \<Rightarrow> jsval io" where
  "uploadJSONToIPFS env jsonData =
     catch_io
       (bind_io (perform (AxiosPost pinata_url jsonData) (axios_post env jsonData)) (\<lambda>data.
        bind_io (lift_io (get_prop data ''IpfsHash'')) (\<lambda>ipfsHash.
        bind_io (lift_io (toString_js ipfsHash)) (\<lambda>_.
        return_io ipfsHash))))
       (\<lambda>error. throw_io (Error (''Failed to upload JSON to IPFS: '' @ message env error)))"

subsection \<open>\<open>updateSupabaseWithIPData\<close>\<close>

text \<open>
  The function uses its arguments in template strings and in \<open>===\<close> against the
  fields of the row; the handler gives it three strings: the image identifier as the
  templates render it, the explorer address it has built and the transaction hash of
  the SDK. The result is the verified row, or \<open>null\<close>.
\<close>

definition updateSupabaseWithIPData :: "env \<Rightarrow> string \<Rightarrow> string \<Rightarrow> string \<Rightarrow> jsval io" where
  "updateSupabaseWithIPData env imageCid ipUrl txHash =
     (if \<not> configured (SUPABASE_URL env) \<or> \<not> configured (SUPABASE_KEY env) then return_io JNull
      else
        catch_io
          (let baseUrl = env_text (SUPABASE_URL env) @ ''/rest/v1/images'';
               checkUrl = baseUrl @ ''?image_cid=eq.'' @ imageCid
                          @ ''&select=wallet_address,image_cid,metadata_cid'';
               updateUrl = baseUrl @ ''?image_cid=eq.'' @ imageCid;
               updateData = (ipUrl, txHash);
               verifyUrl = baseUrl @ ''?image_cid=eq.'' @ imageCid @ ''&select=image_cid,ip,tx_hash''
           in
           bind_io (perform (AxiosGet checkUrl) (axios_get env checkUrl)) (\<lambda>checkData.
             if \<not> truthy checkData \<or> length_is_zero checkData then return_io JNull
             else
               bind_io (perform (AxiosPatch updateUrl updateData)
                          (axios_patch env updateUrl updateData)) (\<lambda>_.
               bind_io (perform (AxiosGet verifyUrl) (axios_get env verifyUrl)) (\<lambda>verifyData.
               bind_io (lift_io (if truthy verifyData then length_gt_zero env verifyData
                                 else Inr False)) (\<lambda>found.
                 if found then
                   (let row = index0 verifyData in
                    bind_io (lift_io (get_prop row ''ip'')) (\<lambda>ip.
                    bind_io (lift_io (if ip = JStr ipUrl then get_prop row ''tx_hash''
                                      else Inr JUndefined)) (\<lambda>tx.
                      if ip = JStr ipUrl \<and> tx = JStr txHash then return_io row
                      else
                        bind_io (lift_io (toString_js ip)) (\<lambda>_.
                        bind_io (lift_io (get_prop row ''tx_hash'')) (\<lambda>got.
                        bind_io (lift_io (toString_js got)) (\<lambda>_.
                        return_io JNull))))))
                 else return_io JNull)))))
          (\<lambda>error. return_io JNull))"

subsection \<open>\<open>getOrCreateCollection\<close>\<close>

definition get_spgNftContract :: "hex option io" where
  "get_spgNftContract = (\<lambda>s. (Inr (spgNftContract s), s))"

definition set_spgNftContract :: "hex \<Rightarrow> unit io" where
  "set_spgNftContract a = (\<lambda>s. (Inr (), s\<lparr>spgNftContract := Some a\<rparr>))"

definition getOrCreateCollection :: "env \<Rightarrow> hex io" where
  "getOrCreateCollection env =
     bind_io get_spgNftContract (\<lambda>cached.
       case cached of
         Some a \<Rightarrow> return_io a
       | None \<Rightarrow>
           bind_io (perform CreateNFTCollection (createNFTCollection env)) (\<lambda>newCollection.
           bind_io (set_spgNftContract (nc_spgNftContract newCollection)) (\<lambda>_.
           return_io (nc_spgNftContract newCollection))))"

section \<open>The handler \<open>POST /register-ip\<close>\<close>

text \<open>
  The fields the handler takes from \<open>req.body\<close>, the object that \<open>express.json()\<close>
  has parsed; an absent field is \<open>undefined\<close>.
\<close>

record request =
  imageCid :: jsval
  metadataCid :: jsval
  depthMetadata :: jsval
  deviceAddress :: jsval
  mintingFee :: jsval
  commercialRevShare :: jsval

text \<open>
  The \<open>data\<close> of the success answer. \<open>r_mintingFee\<close> is the fee in wei, which the
  answer shows divided by \<open>1e18\<close>.
\<close>

record registration_result =
  r_ipId :: hex
  r_tokenId :: "string option"
  r_licenseTermsIds :: "string list option"
  r_txHash :: hex
  r_nftContract :: hex
  r_imageUrl :: string
  r_imageCid :: jsval
  r_metadataUrl :: string
  r_metadataCid :: jsval
  r_depthMetadata :: jsval
  r_mintingFee :: int
  r_commercialRevShare :: jsnum
  r_explorerUrl :: string
  r_transactionUrl :: string

text \<open>
  The four answers of the handler: the two rejections, the failure with the message of
  the error and a timestamp, the success with its data and a timestamp.
\<close>

datatype http_body =
    MissingRequiredFields
  | RevShareOutOfRange jsnum
  | RegistrationFailed string string
  | RegistrationSuccess registration_result string

datatype http_response = Response (status: nat) (content: http_body)

text \<open>Lines 275 to 295: the depth metadata the answer will carry.\<close>

definition resolveDepthMetadata :: "env \<Rightarrow> request \<Rightarrow> jsval io" where
  "resolveDepthMetadata env body =
     bind_io
       (if truthy (metadataCid body) \<and> \<not> truthy (depthMetadata body) then
          bind_io (lift_io (toString_js (metadataCid body))) (\<lambda>_.
          catch_io
            (bind_io (fetchFromIPFS env (metadataCid body)) (\<lambda>fullMetadata.
             bind_io (lift_io (get_prop fullMetadata ''data'')) (\<lambda>data.
             bind_io (lift_io (if truthy data then get_prop data ''depthData''
                               else Inr JUndefined)) (\<lambda>depthData.
             return_io (if truthy data \<and> truthy depthData then depthData else fullMetadata)))))
            (\<lambda>error. return_io (JObj [(''metadataCid'', metadataCid body)])))
        else return_io (depthMetadata body))
       (\<lambda>finalDepthMetadata.
          return_io (if \<not> truthy finalDepthMetadata
                     then JObj [(''note'', JStr ''No depth metadata provided'')]
                     else finalDepthMetadata))"

text \<open>Lines 298 and 299: the fee and the revenue share, given or default.\<close>

definition resolveMintingFee :: "env \<Rightarrow> request \<Rightarrow> js_error + int" where
  "resolveMintingFee env body =
     (if truthy (mintingFee body) then
        (case call_toString (mintingFee body) of Inl e \<Rightarrow> Inl e | Inr s \<Rightarrow> parseEther env s)
      else parseEther env (DEFAULT_MINTING_FEE env))"

definition resolveRevShare :: "env \<Rightarrow> request \<Rightarrow> js_error + jsnum" where
  "resolveRevShare env body =
     (if commercialRevShare body \<noteq> JUndefined then parseInt (commercialRevShare body)
      else Inr (DEFAULT_COMMERCIAL_REV_SHARE env))"

text \<open>
  Lines 327 to 351: the asset metadata document. \<open>img\<close>, \<open>dev\<close> and \<open>meta\<close> are the
  renderings of \<open>imageCid\<close>, \<open>deviceAddress\<close> and \<open>metadataCid\<close> in template strings
  (\<open>meta\<close> is read only where \<open>metadataCid\<close> is truthy).
\<close>

definition build_ipMetadata ::
    "env \<Rightarrow> request \<Rightarrow> string \<Rightarrow> string \<Rightarrow> string \<Rightarrow> string \<Rightarrow> js_error + ip_metadata" where
  "build_ipMetadata env body img dev meta metadataHttpUrl =
     (case hash_update env (imageCid body) of
        Inl e \<Rightarrow> Inl e
      | Inr imageDigest \<Rightarrow>
          (case (if truthy (metadataCid body) then hash_update env (metadataCid body)
                 else hash_update env (imageCid body)) of
             Inl e \<Rightarrow> Inl e
           | Inr mediaDigest \<Rightarrow>
               Inr \<lparr> ip_title = ''DeepShare Evidence - '' @ show_nat (clock env TitleTime),
                     ip_description =
                       (if truthy (metadataCid body)
                        then ''Evidence capture with depth mapping. Full depth data stored at: ''
                             @ metadataHttpUrl
                        else ''Evidence capture. Device: '' @ dev),
                     ip_createdAt = show_nat (clock env CreatedAtTime div 1000),
                     ip_creators = [\<lparr> c_name = ''DeepShare Device'',
                                      c_address = deviceAddress body,
                                      c_contributionPercent = 100 \<rparr>],
                     ip_image = ''ipfs://'' @ img,
                     ip_imageHash = ''0x'' @ imageDigest,
                     ip_mediaUrl = (if truthy (metadataCid body) then ''ipfs://'' @ meta
                                    else ''ipfs://'' @ img),
                     ip_mediaHash = ''0x'' @ mediaDigest,
                     ip_mediaType = (if truthy (metadataCid body) then ''application/json''
                                     else ''image/jpeg''),
                     ip_attributes =
                       [(''Platform'', JStr ''DeepShare''),
                        (''Type'', JStr ''Evidence with Depth Mapping''),
                        (''Device'', deviceAddress body),
                        (''ImageCID'', imageCid body),
                        (''MetadataCID'', js_or (metadataCid body) (JStr ''N/A'')),
                        (''DepthDataURL'', JStr (if truthy (metadataCid body) then metadataHttpUrl
                                                 else ''N/A''))] \<rparr>))"

text \<open>Lines 358 to 374: the collectible metadata document.\<close>

definition build_nftMetadata ::
    "env \<Rightarrow> request \<Rightarrow> string \<Rightarrow> string \<Rightarrow> string \<Rightarrow> string \<Rightarrow> nft_metadata" where
  "build_nftMetadata env body img meta imageHttpUrl metadataHttpUrl =
     \<lparr> nft_name = ''DeepShare Evidence '' @ show_nat (clock env NameTime),
       nft_description =
         (if truthy (metadataCid body)
          then ''Evidence captured with depth mapping technology. Full depth data available in metadata.''
          else ''Evidence captured with depth mapping technology''),
       nft_image = ''ipfs://'' @ img,
       nft_animation_url = (if truthy (metadataCid body) then Some (''ipfs://'' @ meta) else None),
       nft_external_url = (if truthy (metadataCid body) then metadataHttpUrl else imageHttpUrl),
       nft_attributes =
         [(''Platform'', JStr ''DeepShare''),
          (''Device'', deviceAddress body),
          (''Timestamp'', JStr (toISOString env (clock env TimestampTime))),
          (''Has Depth Data'', JStr (if truthy (metadataCid body) then ''Yes'' else ''No'')),
          (''Image CID'', imageCid body),
          (''Metadata CID'', js_or (metadataCid body) (JStr ''N/A''))] \<rparr>"

text \<open>Lines 309 to 435: what the handler does once the request has passed validation.\<close>

definition registration :: "env \<Rightarrow> request \<Rightarrow> jsval \<Rightarrow> int \<Rightarrow> jsnum \<Rightarrow> http_response io" where
  "registration env body finalDepthMetadata finalMintingFee finalRevShare =
     bind_io (lift_io (toString_js (imageCid body))) (\<lambda>img.
     bind_io (lift_io (toString_js (deviceAddress body))) (\<lambda>dev.
     bind_io (getOrCreateCollection env) (\<lambda>nftContract.
     let imageHttpUrl = ''https://gateway.pinata.cloud/ipfs/'' @ img in
     bind_io (lift_io (if truthy (metadataCid body) then toString_js (metadataCid body)
                       else Inr [])) (\<lambda>meta.
     let metadataHttpUrl = (if truthy (metadataCid body)
                            then ''https://gateway.pinata.cloud/ipfs/'' @ meta
                            else imageHttpUrl) in
     bind_io (lift_io (build_ipMetadata env body img dev meta metadataHttpUrl)) (\<lambda>ipMetadata.
     bind_io (uploadJSONToIPFS env (AssetDoc ipMetadata)) (\<lambda>ipIpfsHash.
     let ipHash = sha256_hex env (stringify_ip env ipMetadata);
         nftMetadata = build_nftMetadata env body img meta imageHttpUrl metadataHttpUrl in
     bind_io (uploadJSONToIPFS env (CollectibleDoc nftMetadata)) (\<lambda>nftIpfsHash.
     let nftHash = sha256_hex env (stringify_nft env nftMetadata) in
     bind_io (lift_io (toString_js ipIpfsHash)) (\<lambda>ipCid.
     bind_io (lift_io (toString_js nftIpfsHash)) (\<lambda>nftCid.
     let args = \<lparr> a_spgNftContract = nftContract,
                  a_commercialRevShare = finalRevShare,
                  a_defaultMintingFee = finalMintingFee,
                  a_ipMetadataURI = ''https://ipfs.io/ipfs/'' @ ipCid,
                  a_ipMetadataHash = ''0x'' @ ipHash,
                  a_nftMetadataURI = ''https://ipfs.io/ipfs/'' @ nftCid,
                  a_nftMetadataHash = ''0x'' @ nftHash \<rparr> in
     bind_io (perform (RegisterIpAsset args) (registerIpAsset env args)) (\<lambda>response.
     let ipExplorerUrl = ''https://aeneid.explorer.story.foundation/ipa/''
                         @ render_hex (resp_ipId response) in
     bind_io (updateSupabaseWithIPData env img ipExplorerUrl
                (render_hex (resp_txHash response))) (\<lambda>_.
     return_io
       (Response 200
          (RegistrationSuccess
             \<lparr> r_ipId = resp_ipId response,
               r_tokenId = map_option show_nat (resp_tokenId response),
               r_licenseTermsIds = map_option (map show_nat) (resp_licenseTermsIds response),
               r_txHash = resp_txHash response,
               r_nftContract = nftContract,
               r_imageUrl = imageHttpUrl,
               r_imageCid = imageCid body,
               r_metadataUrl = metadataHttpUrl,
               r_metadataCid = js_or (metadataCid body) JNull,
               r_depthMetadata = finalDepthMetadata,
               r_mintingFee = finalMintingFee,
               r_commercialRevShare = finalRevShare,
               r_explorerUrl = ipExplorerUrl,
               r_transactionUrl = ''https://aeneid.storyscan.io/tx/''
                                  @ render_hex (resp_txHash response) \<rparr>
             (toISOString env (clock env ResponseTime)))))))))))))))"

text \<open>Lines 256 to 445: the handler, with its \<open>try\<close> and \<open>catch\<close>.\<close>

definition register_ip :: "env \<Rightarrow> request \<Rightarrow> http_response io" where
  "register_ip env body =
     catch_io
       (if \<not> truthy (imageCid body) \<or> \<not> truthy (deviceAddress body)
        then return_io (Response 400 MissingRequiredFields)
        else
          bind_io (resolveDepthMetadata env body) (\<lambda>finalDepthMetadata.
          bind_io (lift_io (resolveMintingFee env body)) (\<lambda>finalMintingFee.
          bind_io (lift_io (resolveRevShare env body)) (\<lambda>finalRevShare.
            if num_lt finalRevShare 0 \<or> num_gt finalRevShare 100
            then return_io (Response 400 (RevShareOutOfRange finalRevShare))
            else registration env body finalDepthMetadata finalMintingFee finalRevShare))))
       (\<lambda>error. return_io (Response 500 (RegistrationFailed (message env error)
                                            (toISOString env (clock env ErrorTime)))))"

section \<open>A concrete environment\<close>

text \<open>
  An environment in which every collaborator answers: the gateway serves one metadata
  payload, the pinning service returns an identifier for each document, the chain
  creates the collection and registers the asset, the record store holds no row. The
  digest and the serialisers are stand-ins that keep their argument readable.
\<close>

definition sample_payload :: jsval where
  "sample_payload = JObj [(''data'', JObj [(''depthData'', JObj [(''points'', JNum ''3'')])])]"

definition sample_env :: env where
  "sample_env =
     \<lparr> SUPABASE_URL = Some ''https://db.example'',
       SUPABASE_KEY = Some ''service-key'',
       IPFS_GATEWAY = ''https://gateway.pinata.cloud'',
       DEFAULT_MINTING_FEE = ''0.1'',
       DEFAULT_COMMERCIAL_REV_SHARE = Fin 10,
       sha256_hex = (\<lambda>s. ''sha256:'' @ s),
       stringify_ip = (\<lambda>d. ''ip|'' @ ip_image d @ ''|'' @ ip_mediaUrl d),
       stringify_nft = (\<lambda>d. ''nft|'' @ nft_image d),
       parseEther = (\<lambda>s. if s = ''0.1'' then Inr 100000000000000000
                          else if s = ''0.2'' then Inr 200000000000000000
                          else Inl (Error ''invalid decimal number'')),
       clock = (\<lambda>_. 5000),
       toISOString = (\<lambda>n. ''t'' @ show_nat n),
       engine_message = (\<lambda>_. ''TypeError''),
       string_gt_zero = (\<lambda>_. False),
       axios_get = (\<lambda>url. if url = ''https://gateway.pinata.cloud/ipfs/Qmeta1''
                           then Inr sample_payload else Inr (JArr [])),
       axios_post = (\<lambda>d. case d of
                             AssetDoc _ \<Rightarrow> Inr (JObj [(''IpfsHash'', JStr ''QmIp'')])
                           | CollectibleDoc _ \<Rightarrow> Inr (JObj [(''IpfsHash'', JStr ''QmNft'')])),
       axios_patch = (\<lambda>_ _. Inr JNull),
       createNFTCollection = Inr \<lparr> nc_spgNftContract = Hex ''c0'', nc_txHash = Hex ''a1'' \<rparr>,
       registerIpAsset = (\<lambda>_. Inr \<lparr> resp_ipId = Hex ''1d'', resp_tokenId = Some 7,
                                    resp_licenseTermsIds = Some [1], resp_txHash = Hex ''7f'' \<rparr>) \<rparr>"

definition sample_request :: request where
  "sample_request =
     \<lparr> imageCid = JStr ''Qimg1'', metadataCid = JUndefined, depthMetadata = JUndefined,
       deviceAddress = JStr ''0xABC'', mintingFee = JStr ''0.2'', commercialRevShare = JNum ''15'' \<rparr>"

definition fresh :: proc where
  "fresh = \<lparr> spgNftContract = None, calls = [] \<rparr>"

text \<open>The asset metadata document of \<open>sample_request\<close> in \<open>sample_env\<close>.\<close>

definition sample_asset_doc :: ip_metadata where
  "sample_asset_doc =
     \<lparr> ip_title = ''DeepShare Evidence - 5000'',
       ip_description = ''Evidence capture. Device: 0xABC'',
       ip_createdAt = ''5'',
       ip_creators = [\<lparr> c_name = ''DeepShare Device'', c_address = JStr ''0xABC'',
                        c_contributionPercent = 100 \<rparr>],
       ip_image = ''ipfs://Qimg1'',
       ip_imageHash = ''0xsha256:Qimg1'',
       ip_mediaUrl = ''ipfs://Qimg1'',
       ip_mediaHash = ''0xsha256:Qimg1'',
       ip_mediaType = ''image/jpeg'',
       ip_attributes =
         [(''Platform'', JStr ''DeepShare''),
          (''Type'', JStr ''Evidence with Depth Mapping''),
          (''Device'', JStr ''0xABC''),
          (''ImageCID'', JStr ''Qimg1''),
          (''MetadataCID'', JStr ''N/A''),
          (''DepthDataURL'', JStr ''N/A'')] \<rparr>"

text \<open>Two more requests: one that is rejected for its revenue share, one that gives both the
  inline depth metadata and a metadata identifier.\<close>

definition rejected_request :: request where
  "rejected_request =
     sample_request\<lparr> metadataCid := JStr ''Qmeta1'', commercialRevShare := JNum ''101'' \<rparr>"

definition both_request :: request where
  "both_request =
     sample_request\<lparr> metadataCid := JStr ''Qmeta1'',
                     depthMetadata := JObj [(''inline'', JNum ''1'')] \<rparr>"

text \<open>
  Environments in which a collaborator is down: the record store and the gateway (every
  GET fails), or the pinning service (every POST fails). A request with a metadata
  identifier, and a process that has its collection already.
\<close>

definition store_down_env :: env where
  "store_down_env = sample_env\<lparr> axios_get := (\<lambda>url. Inl (Error ''Network Error'')) \<rparr>"


definition metadata_request :: request where
  "metadata_request = sample_request\<lparr> metadataCid := JStr ''Qmeta1'' \<rparr>"

definition cached :: proc where
  "cached = \<lparr> spgNftContract = Some (Hex ''c0''), calls = [] \<rparr>"


text \<open>
  The asset metadata document of \<open>metadata_request\<close>, in \<open>sample_env\<close> and in the
  environments made from it.
\<close>

definition fallback_asset_doc :: ip_metadata where
  "fallback_asset_doc =
     \<lparr> ip_title = ''DeepShare Evidence - 5000'',
       ip_description = ''Evidence capture with depth mapping. Full depth data stored at: https://gateway.pinata.cloud/ipfs/Qmeta1'',
       ip_createdAt = ''5'',
       ip_creators = [\<lparr> c_name = ''DeepShare Device'', c_address = JStr ''0xABC'',
                        c_contributionPercent = 100 \<rparr>],
       ip_image = ''ipfs://Qimg1'',
       ip_imageHash = ''0xsha256:Qimg1'',
       ip_mediaUrl = ''ipfs://Qmeta1'',
       ip_mediaHash = ''0xsha256:Qmeta1'',
       ip_mediaType = ''application/json'',
       ip_attributes =
         [(''Platform'', JStr ''DeepShare''),
          (''Type'', JStr ''Evidence with Depth Mapping''),
          (''Device'', JStr ''0xABC''),
          (''ImageCID'', JStr ''Qimg1''),
          (''MetadataCID'', JStr ''Qmeta1''),
          (''DepthDataURL'', JStr ''https://gateway.pinata.cloud/ipfs/Qmeta1'')] \<rparr>"

section \<open>Observing a run\<close>

text \<open>The calls a computation makes when it starts in state \<open>s\<close>.\<close>

definition calls_of :: "'a io \<Rightarrow> proc \<Rightarrow> call list" where
  "calls_of m s = drop (length (calls s)) (calls (snd (m s)))"

text \<open>
  A computation is stateless when it neither reads nor writes \<open>spgNftContract\<close>: from
  every state it returns what it returns from \<open>fresh\<close> and makes the same calls.
\<close>

definition stateless :: "'a io \<Rightarrow> bool" where
  "stateless m = (\<forall>s. m s = (fst (m fresh), s\<lparr>calls := calls s @ calls (snd (m fresh))\<rparr>))"

text \<open>\<open>io_spec P Q m\<close>: every call of \<open>m\<close> satisfies \<open>P\<close>, every value it returns \<open>Q\<close>.\<close>

definition io_spec :: "(call \<Rightarrow> bool) \<Rightarrow> ('a \<Rightarrow> bool) \<Rightarrow> 'a io \<Rightarrow> bool" where
  "io_spec P Q m =
     (\<forall>s. \<exists>r tr. m s = (r, s\<lparr>calls := calls s @ tr\<rparr>) \<and> list_all P tr
                 \<and> (\<forall>x. r = Inr x \<longrightarrow> Q x))"

definition is_record_store_call :: "call \<Rightarrow> bool" where
  "is_record_store_call c =
     (case c of AxiosGet url \<Rightarrow> True | AxiosPatch url d \<Rightarrow> True | _ \<Rightarrow> False)"

text \<open>What the stateless parts of the handler return and call.\<close>

definition upload_result :: "env \<Rightarrow> document \<Rightarrow> js_error + jsval" where
  "upload_result env doc = fst (uploadJSONToIPFS env doc fresh)"

definition reconcile_calls :: "env \<Rightarrow> string \<Rightarrow> string \<Rightarrow> string \<Rightarrow> call list" where
  "reconcile_calls env a b c = calls (snd (updateSupabaseWithIPData env a b c fresh))"

definition reconcile_row :: "env \<Rightarrow> string \<Rightarrow> string \<Rightarrow> string \<Rightarrow> jsval" where
  "reconcile_row env a b c =
     (case fst (updateSupabaseWithIPData env a b c fresh) of Inr row \<Rightarrow> row | Inl e \<Rightarrow> JNull)"

definition resolve_result :: "env \<Rightarrow> request \<Rightarrow> js_error + jsval" where
  "resolve_result env body = fst (resolveDepthMetadata env body fresh)"

definition resolve_calls :: "env \<Rightarrow> request \<Rightarrow> call list" where
  "resolve_calls env body = calls (snd (resolveDepthMetadata env body fresh))"


text \<open>
  \<open>run_post m s R\<close>: started in state \<open>s\<close>, the computation \<open>m\<close> makes the calls \<open>tr\<close>,
  leaves the collection handle \<open>c\<close> and ends with \<open>r\<close>, where \<open>R tr c r\<close>.
\<close>

definition run_post ::
    "'a io \<Rightarrow> proc \<Rightarrow> (call list \<Rightarrow> hex option \<Rightarrow> js_error + 'a \<Rightarrow> bool) \<Rightarrow> bool" where
  "run_post m s R =
     (\<exists>r tr c. m s = (r, \<lparr>spgNftContract = c, calls = calls s @ tr\<rparr>) \<and> R tr c r)"

text \<open>The \<open>data\<close> of a success answer.\<close>

definition success_data :: "js_error + http_response \<Rightarrow> registration_result option" where
  "success_data r =
     (case r of
        Inr (Response code (RegistrationSuccess result ts)) \<Rightarrow> Some result
      | _ \<Rightarrow> None)"




text \<open>
  A request that reaches the range check of the revenue share: the two required fields
  are there, \<open>metadataCid\<close> can be written into a template string and the minting fee
  is one that \<open>parseEther\<close> accepts.
\<close>

definition otherwise_valid :: "env \<Rightarrow> request \<Rightarrow> bool" where
  "otherwise_valid env body =
     (truthy (imageCid body) \<and> truthy (deviceAddress body)
      \<and> \<not> isl (toString_js (metadataCid body))
      \<and> \<not> isl (resolveMintingFee env body))"

text \<open>
  A run that gets as far as publishing: the request passes validation, the image
  identifier is a string, the metadata identifier is a string or absent, the device
  address can be written into a template string, and a collection is cached or can be
  created.
\<close>

definition reaches_publish :: "env \<Rightarrow> request \<Rightarrow> proc \<Rightarrow> bool" where
  "reaches_publish env body s =
     (otherwise_valid env body
      \<and> (case imageCid body of JStr _ \<Rightarrow> True | _ \<Rightarrow> False)
      \<and> (case metadataCid body of JStr _ \<Rightarrow> True | v \<Rightarrow> \<not> truthy v)
      \<and> \<not> isl (toString_js (deviceAddress body))
      \<and> (case resolveRevShare env body of
            Inr rs \<Rightarrow> \<not> num_lt rs 0 \<and> \<not> num_gt rs 100
          | Inl _ \<Rightarrow> False)
      \<and> (spgNftContract s \<noteq> None \<or> \<not> isl (createNFTCollection env)))"

section \<open>Laws of the computations\<close>

lemmas io_defs = bind_io_def catch_io_def return_io_def throw_io_def lift_io_def perform_def

lemma stateless_return: "stateless (return_io x)"
  by (simp add: stateless_def return_io_def fresh_def)

lemma stateless_throw: "stateless (throw_io e)"
  by (simp add: stateless_def throw_io_def fresh_def)

lemma stateless_lift: "stateless (lift_io r)"
  by (simp add: stateless_def lift_io_def fresh_def)

lemma stateless_perform: "stateless (perform c r)"
  by (simp add: stateless_def perform_def fresh_def)

lemma stateless_from_fresh:
  assumes "stateless m"
  shows "\<exists>r tr. m fresh = (r, fresh\<lparr>calls := tr\<rparr>) \<and> (\<forall>s. m s = (r, s\<lparr>calls := calls s @ tr\<rparr>))"
proof -
  let ?r = "fst (m fresh)" and ?tr = "calls (snd (m fresh))"
  have all: "m s = (?r, s\<lparr>calls := calls s @ ?tr\<rparr>)" for s
    by (rule assms [unfolded stateless_def, rule_format])
  have "calls fresh = []"
    by (simp add: fresh_def)
  then have "m fresh = (?r, fresh\<lparr>calls := ?tr\<rparr>)"
    using all [of fresh] by (metis append_Nil)
  with all show ?thesis
    by blast
qed

lemma stateless_bind:
  assumes "stateless m" and "\<And>x. stateless (f x)"
  shows "stateless (bind_io m f)"
proof (unfold stateless_def, rule allI)
  fix s
  obtain r tr where m0: "m fresh = (r, fresh\<lparr>calls := tr\<rparr>)"
    and ms: "\<And>s. m s = (r, s\<lparr>calls := calls s @ tr\<rparr>)"
    using stateless_from_fresh [OF assms(1)] by blast
  show "bind_io m f s =
          (fst (bind_io m f fresh), s\<lparr>calls := calls s @ calls (snd (bind_io m f fresh))\<rparr>)"
  proof (cases r)
    case (Inl e)
    then show ?thesis using m0 ms [of s] by (simp add: bind_io_def)
  next
    case (Inr x)
    have a: "f x (s\<lparr>calls := calls s @ tr\<rparr>) =
               (fst (f x fresh), s\<lparr>calls := calls s @ tr @ calls (snd (f x fresh))\<rparr>)"
      using assms(2) [unfolded stateless_def, rule_format, of x "s\<lparr>calls := calls s @ tr\<rparr>"]
      by simp
    have b: "f x (fresh\<lparr>calls := tr\<rparr>) =
               (fst (f x fresh), fresh\<lparr>calls := tr @ calls (snd (f x fresh))\<rparr>)"
      using assms(2) [unfolded stateless_def, rule_format, of x "fresh\<lparr>calls := tr\<rparr>"]
      by simp
    show ?thesis using Inr m0 ms [of s] a b by (simp add: bind_io_def)
  qed
qed

lemma stateless_catch:
  assumes "stateless m" and "\<And>e. stateless (h e)"
  shows "stateless (catch_io m h)"
proof (unfold stateless_def, rule allI)
  fix s
  obtain r tr where m0: "m fresh = (r, fresh\<lparr>calls := tr\<rparr>)"
    and ms: "\<And>s. m s = (r, s\<lparr>calls := calls s @ tr\<rparr>)"
    using stateless_from_fresh [OF assms(1)] by blast
  show "catch_io m h s =
          (fst (catch_io m h fresh), s\<lparr>calls := calls s @ calls (snd (catch_io m h fresh))\<rparr>)"
  proof (cases r)
    case (Inr x)
    then show ?thesis using m0 ms [of s] by (simp add: catch_io_def)
  next
    case (Inl e)
    have a: "h e (s\<lparr>calls := calls s @ tr\<rparr>) =
               (fst (h e fresh), s\<lparr>calls := calls s @ tr @ calls (snd (h e fresh))\<rparr>)"
      using assms(2) [unfolded stateless_def, rule_format, of e "s\<lparr>calls := calls s @ tr\<rparr>"]
      by simp
    have b: "h e (fresh\<lparr>calls := tr\<rparr>) =
               (fst (h e fresh), fresh\<lparr>calls := tr @ calls (snd (h e fresh))\<rparr>)"
      using assms(2) [unfolded stateless_def, rule_format, of e "fresh\<lparr>calls := tr\<rparr>"]
      by simp
    show ?thesis using Inl m0 ms [of s] a b by (simp add: catch_io_def)
  qed
qed

lemma stateless_if:
  "(c \<Longrightarrow> stateless a) \<Longrightarrow> (\<not> c \<Longrightarrow> stateless b) \<Longrightarrow> stateless (if c then a else b)"
  by simp

lemmas stateless_intros = stateless_return stateless_throw stateless_lift stateless_perform
  stateless_bind stateless_catch stateless_if

lemma io_spec_pure:
  assumes "\<And>s. m s = (r, s)" and "\<And>x. r = Inr x \<Longrightarrow> Q x"
  shows "io_spec P Q m"
  unfolding io_spec_def
proof (rule allI)
  fix s
  show "\<exists>r tr. m s = (r, s\<lparr>calls := calls s @ tr\<rparr>) \<and> list_all P tr \<and> (\<forall>x. r = Inr x \<longrightarrow> Q x)"
    using assms by (intro exI [of _ r] exI [of _ "[]"]) simp
qed

lemma io_spec_return: "Q x \<Longrightarrow> io_spec P Q (return_io x)"
  by (rule io_spec_pure [where r = "Inr x"]) (simp_all add: return_io_def)

lemma io_spec_throw: "io_spec P Q (throw_io e)"
  by (rule io_spec_pure [where r = "Inl e"]) (simp_all add: throw_io_def)

lemma io_spec_bind_lift:
  assumes "\<And>x. r = Inr x \<Longrightarrow> io_spec P Q (f x)"
  shows "io_spec P Q (bind_io (lift_io r) f)"
proof (cases r)
  case (Inl e)
  show ?thesis
    by (rule io_spec_pure [where r = "Inl e"]) (simp_all add: Inl bind_io_def lift_io_def)
next
  case (Inr x)
  then show ?thesis using assms [of x] by (simp add: io_spec_def bind_io_def lift_io_def)
qed

lemma io_spec_bind_perform:
  assumes "P c" and "\<And>x. r = Inr x \<Longrightarrow> io_spec P Q (f x)"
  shows "io_spec P Q (bind_io (perform c r) f)"
  unfolding io_spec_def
proof (rule allI)
  fix s
  let ?goal = "\<exists>r' tr. bind_io (perform c r) f s = (r', s\<lparr>calls := calls s @ tr\<rparr>) \<and>
                 list_all P tr \<and> (\<forall>x. r' = Inr x \<longrightarrow> Q x)"
  show ?goal
  proof (cases r)
    case (Inl e)
    have "bind_io (perform c r) f s = (Inl e, s\<lparr>calls := calls s @ [c]\<rparr>)"
      using Inl by (simp add: bind_io_def perform_def)
    then show ?goal
      using assms(1) by (intro exI [of _ "Inl e"] exI [of _ "[c]"]) simp
  next
    case (Inr x)
    obtain r' tr where f: "f x (s\<lparr>calls := calls s @ [c]\<rparr>) = (r', s\<lparr>calls := calls s @ [c] @ tr\<rparr>)"
      and tr: "list_all P tr" and q: "\<forall>y. r' = Inr y \<longrightarrow> Q y"
      using assms(2) [OF Inr, unfolded io_spec_def, rule_format, of "s\<lparr>calls := calls s @ [c]\<rparr>"]
      by auto
    have "bind_io (perform c r) f s = (r', s\<lparr>calls := calls s @ (c # tr)\<rparr>)"
      using Inr f by (simp add: bind_io_def perform_def)
    then show ?goal
      using assms(1) tr q by (intro exI [of _ r'] exI [of _ "c # tr"]) simp
  qed
qed

lemma io_spec_catch:
  assumes "io_spec P Q m" and "\<And>e. io_spec P Q (h e)"
  shows "io_spec P Q (catch_io m h)"
  unfolding io_spec_def
proof (rule allI)
  fix s
  let ?goal = "\<exists>r tr. catch_io m h s = (r, s\<lparr>calls := calls s @ tr\<rparr>) \<and> list_all P tr
                 \<and> (\<forall>x. r = Inr x \<longrightarrow> Q x)"
  obtain r tr where m: "m s = (r, s\<lparr>calls := calls s @ tr\<rparr>)"
    and tr: "list_all P tr" and q: "\<forall>y. r = Inr y \<longrightarrow> Q y"
    using assms(1) [unfolded io_spec_def, rule_format, of s] by auto
  show ?goal
  proof (cases r)
    case (Inr x)
    then show ?thesis using m tr q by (auto simp: catch_io_def)
  next
    case (Inl e)
    obtain r' tr' where h: "h e (s\<lparr>calls := calls s @ tr\<rparr>) = (r', s\<lparr>calls := calls s @ tr @ tr'\<rparr>)"
      and tr': "list_all P tr'" and q': "\<forall>y. r' = Inr y \<longrightarrow> Q y"
      using assms(2) [unfolded io_spec_def, rule_format, of e "s\<lparr>calls := calls s @ tr\<rparr>"] by auto
    have "catch_io m h s = (r', s\<lparr>calls := calls s @ (tr @ tr')\<rparr>)"
      using Inl m h by (simp add: catch_io_def)
    then show ?thesis using tr tr' q'
      by (intro exI [of _ r'] exI [of _ "tr @ tr'"]) simp
  qed
qed

lemma io_spec_if:
  "(c \<Longrightarrow> io_spec P Q a) \<Longrightarrow> (\<not> c \<Longrightarrow> io_spec P Q b) \<Longrightarrow> io_spec P Q (if c then a else b)"
  by simp

lemmas io_spec_intros = io_spec_return io_spec_throw io_spec_bind_lift io_spec_bind_perform
  io_spec_catch io_spec_if

section \<open>The helper functions, one by one\<close>

lemma stateless_upload: "stateless (uploadJSONToIPFS env doc)"
  unfolding uploadJSONToIPFS_def by (intro stateless_intros)

lemma stateless_fetch: "stateless (fetchFromIPFS env cid)"
  unfolding fetchFromIPFS_def Let_def by (intro stateless_intros)

lemma stateless_reconciler: "stateless (updateSupabaseWithIPData env a b c)"
  unfolding updateSupabaseWithIPData_def Let_def by (intro stateless_intros)

lemma stateless_resolve: "stateless (resolveDepthMetadata env body)"
  unfolding resolveDepthMetadata_def Let_def by (intro stateless_intros stateless_fetch)

lemma upload_eq:
  "uploadJSONToIPFS env doc s =
     (upload_result env doc, s\<lparr>calls := calls s @ [AxiosPost pinata_url doc]\<rparr>)"
proof -
  have "calls (snd (uploadJSONToIPFS env doc fresh)) = [AxiosPost pinata_url doc]"
    by (simp add: uploadJSONToIPFS_def io_defs fresh_def split: sum.splits)
  then show ?thesis
    using stateless_upload [of env doc, unfolded stateless_def, rule_format, of s]
    by (simp add: upload_result_def)
qed

lemma upload_result_text:
  "upload_result env doc = Inr h \<Longrightarrow> \<exists>t. toString_js h = Inr t"
  by (auto simp: upload_result_def uploadJSONToIPFS_def io_defs fresh_def split: sum.splits)



lemma reconciler_spec:
  "io_spec is_record_store_call
     (\<lambda>row. row = JNull \<or>
             (get_prop row ''ip'' = Inr (JStr b) \<and> get_prop row ''tx_hash'' = Inr (JStr c)))
     (updateSupabaseWithIPData env a b c)"
  unfolding updateSupabaseWithIPData_def Let_def
  apply (intro io_spec_intros)
  apply (simp_all add: is_record_store_call_def split: if_splits)
  done

lemma reconciler_returns: "\<exists>row s'. updateSupabaseWithIPData env a b c s = (Inr row, s')"
proof (cases "\<not> configured (SUPABASE_URL env) \<or> \<not> configured (SUPABASE_KEY env)")
  case True
  then show ?thesis by (simp add: updateSupabaseWithIPData_def return_io_def)
next
  case False
  then obtain m where "updateSupabaseWithIPData env a b c = catch_io m (\<lambda>error. return_io JNull)"
    by (simp add: updateSupabaseWithIPData_def)
  then show ?thesis
    by (cases "m s") (auto simp: catch_io_def return_io_def split: sum.splits)
qed

lemma reconciler_eq:
  "updateSupabaseWithIPData env a b c s =
     (Inr (reconcile_row env a b c), s\<lparr>calls := calls s @ reconcile_calls env a b c\<rparr>)"
proof -
  obtain row s' where "updateSupabaseWithIPData env a b c fresh = (Inr row, s')"
    using reconciler_returns by blast
  then show ?thesis
    using stateless_reconciler [of env a b c, unfolded stateless_def, rule_format, of s]
    by (simp add: reconcile_row_def reconcile_calls_def)
qed

lemma reconcile_calls_kind: "list_all is_record_store_call (reconcile_calls env a b c)"
  using reconciler_spec [of b c env a, unfolded io_spec_def, rule_format, of fresh]
  by (auto simp: reconcile_calls_def fresh_def)

lemma reconcile_calls_cases:
  "k \<in> set (reconcile_calls env a b c) \<Longrightarrow> is_record_store_call k"
  using reconcile_calls_kind [of env a b c] by (simp add: list_all_iff)

lemma not_in_reconcile [simp]:
  "AxiosPost u d \<notin> set (reconcile_calls env a b c)"
  "CreateNFTCollection \<notin> set (reconcile_calls env a b c)"
  "RegisterIpAsset r \<notin> set (reconcile_calls env a b c)"
  using reconcile_calls_cases [of "AxiosPost u d" env a b c]
    reconcile_calls_cases [of CreateNFTCollection env a b c]
    reconcile_calls_cases [of "RegisterIpAsset r" env a b c]
  by (auto simp: is_record_store_call_def)

lemma reconcile_row_matches:
  "reconcile_row env a b c = JNull \<or>
   (get_prop (reconcile_row env a b c) ''ip'' = Inr (JStr b) \<and>
    get_prop (reconcile_row env a b c) ''tx_hash'' = Inr (JStr c))"
  using reconciler_spec [of b c env a, unfolded io_spec_def, rule_format, of fresh]
  by (auto simp: reconcile_row_def split: sum.splits)

lemma goc_effect:
  "getOrCreateCollection env s =
     (case spgNftContract s of
        Some h \<Rightarrow> (Inr h, s)
      | None \<Rightarrow>
          (case createNFTCollection env of
             Inl e \<Rightarrow> (Inl e, s\<lparr>calls := calls s @ [CreateNFTCollection]\<rparr>)
           | Inr nc \<Rightarrow>
               (Inr (nc_spgNftContract nc),
                s\<lparr>calls := calls s @ [CreateNFTCollection],
                  spgNftContract := Some (nc_spgNftContract nc)\<rparr>)))"
  by (simp add: getOrCreateCollection_def get_spgNftContract_def set_spgNftContract_def io_defs
      split: option.splits sum.splits)

lemma resolve_eq:
  "resolveDepthMetadata env body s =
     (resolve_result env body, s\<lparr>calls := calls s @ resolve_calls env body\<rparr>)"
  using stateless_resolve [of env body, unfolded stateless_def, rule_format, of s]
  by (simp add: resolve_result_def resolve_calls_def)

section \<open>Following a run call by call\<close>

lemma run_postI:
  "m s = (r, \<lparr>spgNftContract = c, calls = calls s @ tr\<rparr>) \<Longrightarrow> R tr c r \<Longrightarrow> run_post m s R"
  unfolding run_post_def by blast

lemma run_postD:
  assumes "run_post m s R"
  shows "R (calls_of m s) (spgNftContract (snd (m s))) (fst (m s))"
  using assms unfolding run_post_def calls_of_def by auto

lemma run_post_return: "R [] (spgNftContract s) (Inr x) \<Longrightarrow> run_post (return_io x) s R"
  by (rule run_postI [where tr = "[]" and c = "spgNftContract s"]) (simp_all add: return_io_def)

lemma run_post_bind_lift:
  assumes "\<And>e. r = Inl e \<Longrightarrow> R [] (spgNftContract s) (Inl e)"
    and "\<And>x. r = Inr x \<Longrightarrow> run_post (f x) s R"
  shows "run_post (bind_io (lift_io r) f) s R"
proof (cases r)
  case (Inl e)
  show ?thesis
    by (rule run_postI [where tr = "[]" and c = "spgNftContract s" and r = "Inl e"])
       (simp_all add: Inl bind_io_def lift_io_def assms(1))
next
  case (Inr x)
  then show ?thesis using assms(2) [of x] by (simp add: run_post_def bind_io_def lift_io_def)
qed

lemma run_post_shift:
  assumes "run_post m (s\<lparr>calls := calls s @ tr0\<rparr>) (\<lambda>tr. R (tr0 @ tr))"
    and "k s = m (s\<lparr>calls := calls s @ tr0\<rparr>)"
  shows "run_post k s R"
  using assms unfolding run_post_def by auto

lemma run_post_bind_perform:
  assumes "\<And>e. r = Inl e \<Longrightarrow> R [c] (spgNftContract s) (Inl e)"
    and "\<And>x. r = Inr x \<Longrightarrow> run_post (f x) (s\<lparr>calls := calls s @ [c]\<rparr>) (\<lambda>tr. R (c # tr))"
  shows "run_post (bind_io (perform c r) f) s R"
proof (cases r)
  case (Inl e)
  show ?thesis
    by (rule run_postI [where tr = "[c]" and c = "spgNftContract s" and r = "Inl e"])
       (simp_all add: Inl bind_io_def perform_def assms(1))
next
  case (Inr x)
  show ?thesis
    by (rule run_post_shift [where m = "f x" and ?tr0.0 = "[c]"])
       (use assms(2) [OF Inr] in \<open>simp_all add: Inr bind_io_def perform_def\<close>)
qed

lemma run_post_bind_eq:
  assumes "\<And>s. m s = (r0, s\<lparr>calls := calls s @ tr0\<rparr>)"
    and "\<And>e. r0 = Inl e \<Longrightarrow> R tr0 (spgNftContract s) (Inl e)"
    and "\<And>x. r0 = Inr x \<Longrightarrow> run_post (f x) (s\<lparr>calls := calls s @ tr0\<rparr>) (\<lambda>tr. R (tr0 @ tr))"
  shows "run_post (bind_io m f) s R"
proof (cases r0)
  case (Inl e)
  show ?thesis
    by (rule run_postI [where tr = tr0 and c = "spgNftContract s" and r = "Inl e"])
       (simp_all add: Inl bind_io_def assms(1) assms(2))
next
  case (Inr x)
  show ?thesis
    by (rule run_post_shift [where m = "f x" and ?tr0.0 = tr0])
       (use assms(3) [OF Inr] in \<open>simp_all add: Inr bind_io_def assms(1)\<close>)
qed

lemma run_post_bind_collection:
  assumes "\<And>h. spgNftContract s = Some h \<Longrightarrow> run_post (f h) s R"
    and "\<And>e. spgNftContract s = None \<Longrightarrow> createNFTCollection env = Inl e \<Longrightarrow>
           R [CreateNFTCollection] None (Inl e)"
    and "\<And>nc. spgNftContract s = None \<Longrightarrow> createNFTCollection env = Inr nc \<Longrightarrow>
           run_post (f (nc_spgNftContract nc))
             (s\<lparr>calls := calls s @ [CreateNFTCollection],
                spgNftContract := Some (nc_spgNftContract nc)\<rparr>)
             (\<lambda>tr. R (CreateNFTCollection # tr))"
  shows "run_post (bind_io (getOrCreateCollection env) f) s R"
proof (cases "spgNftContract s")
  case (Some h)
  then show ?thesis using assms(1) [OF Some] by (simp add: run_post_def bind_io_def goc_effect)
next
  case None
  show ?thesis
  proof (cases "createNFTCollection env")
    case (Inl e)
    show ?thesis
      by (rule run_postI [where tr = "[CreateNFTCollection]" and c = None and r = "Inl e"])
         (simp_all add: None Inl bind_io_def goc_effect assms(2))
  next
    case (Inr nc)
    show ?thesis
      using assms(3) [OF None Inr]
      by (auto simp: run_post_def None Inr bind_io_def goc_effect)
  qed
qed

lemma run_post_catch_return:
  assumes "run_post m s
             (\<lambda>tr c r. case r of Inl e \<Rightarrow> R tr c (Inr (g e)) | Inr x \<Rightarrow> R tr c (Inr x))"
  shows "run_post (catch_io m (\<lambda>e. return_io (g e))) s R"
proof -
  obtain r tr c where m: "m s = (r, \<lparr>spgNftContract = c, calls = calls s @ tr\<rparr>)"
    and post: "case r of Inl e \<Rightarrow> R tr c (Inr (g e)) | Inr x \<Rightarrow> R tr c (Inr x)"
    using assms unfolding run_post_def by blast
  show ?thesis
  proof (cases r)
    case (Inl e)
    show ?thesis
      by (rule run_postI [where tr = tr and c = c and r = "Inr (g e)"])
         (use m post Inl in \<open>simp_all add: catch_io_def return_io_def\<close>)
  next
    case (Inr x)
    show ?thesis
      by (rule run_postI [where tr = tr and c = c and r = "Inr x"])
         (use m post Inr in \<open>simp_all add: catch_io_def\<close>)
  qed
qed

lemma run_post_if:
  "(b \<Longrightarrow> run_post m1 s R) \<Longrightarrow> (\<not> b \<Longrightarrow> run_post m2 s R)
   \<Longrightarrow> run_post (if b then m1 else m2) s R"
  by simp

lemmas run_post_upload = run_post_bind_eq [OF upload_eq]

lemmas run_post_reconcile = run_post_bind_eq [OF reconciler_eq]

lemmas run_post_resolve = run_post_bind_eq [OF resolve_eq]

lemmas vcg = run_post_return run_post_bind_lift run_post_bind_perform run_post_upload
  run_post_reconcile run_post_resolve run_post_bind_collection run_post_catch_return run_post_if

lemma upload_text_contra [simp]:
  "upload_result env doc = Inr h \<Longrightarrow> toString_js h \<noteq> Inl e"
  using upload_result_text by fastforce

section \<open>Metadata resolution\<close>

lemma fetch_eq:
  "fetchFromIPFS env cid s =
     (case toString_js cid of
        Inl e \<Rightarrow> (Inl e, s)
      | Inr c \<Rightarrow>
          (case axios_get env (IPFS_GATEWAY env @ ''/ipfs/'' @ c) of
             Inl e \<Rightarrow> Inl (Error (''Failed to fetch CID '' @ c @ '' from IPFS: '' @ message env e))
           | Inr v \<Rightarrow> Inr v,
           s\<lparr>calls := calls s @ [AxiosGet (IPFS_GATEWAY env @ ''/ipfs/'' @ c)]\<rparr>))"
  by (simp add: fetchFromIPFS_def io_defs Let_def split: sum.splits)

lemma resolve_inline:
  assumes "truthy (depthMetadata body)"
  shows "resolveDepthMetadata env body s = (Inr (depthMetadata body), s)"
  using assms by (simp add: resolveDepthMetadata_def io_defs)

lemma resolve_absent:
  assumes "\<not> truthy (metadataCid body)" and "\<not> truthy (depthMetadata body)"
  shows "resolveDepthMetadata env body s =
           (Inr (JObj [(''note'', JStr ''No depth metadata provided'')]), s)"
  using assms by (simp add: resolveDepthMetadata_def io_defs)

lemma resolve_unprintable:
  assumes "truthy (metadataCid body)" and "\<not> truthy (depthMetadata body)"
    and "toString_js (metadataCid body) = Inl e"
  shows "resolveDepthMetadata env body s = (Inl e, s)"
  using assms by (simp add: resolveDepthMetadata_def io_defs)

lemma resolve_fetch_failed:
  assumes "truthy (metadataCid body)" and "\<not> truthy (depthMetadata body)"
    and "toString_js (metadataCid body) = Inr cid"
    and "axios_get env (IPFS_GATEWAY env @ ''/ipfs/'' @ cid) = Inl cause"
  shows "resolveDepthMetadata env body s =
           (Inr (JObj [(''metadataCid'', metadataCid body)]),
            s\<lparr>calls := calls s @ [AxiosGet (IPFS_GATEWAY env @ ''/ipfs/'' @ cid)]\<rparr>)"
  using assms by (simp add: resolveDepthMetadata_def fetch_eq io_defs)

lemma resolve_fetched:
  assumes "truthy (metadataCid body)" and "\<not> truthy (depthMetadata body)"
    and "toString_js (metadataCid body) = Inr cid"
    and "axios_get env (IPFS_GATEWAY env @ ''/ipfs/'' @ cid) = Inr full"
  shows "\<exists>r. resolveDepthMetadata env body s =
           (Inr r, s\<lparr>calls := calls s @ [AxiosGet (IPFS_GATEWAY env @ ''/ipfs/'' @ cid)]\<rparr>)"
  using assms by (simp add: resolveDepthMetadata_def fetch_eq io_defs split: sum.splits)

lemma resolve_calls_shape:
  "resolve_calls env body = [] \<or>
   (\<exists>cid. truthy (metadataCid body) \<and> \<not> truthy (depthMetadata body)
      \<and> toString_js (metadataCid body) = Inr cid
      \<and> resolve_calls env body = [AxiosGet (IPFS_GATEWAY env @ ''/ipfs/'' @ cid)])"
proof (cases "truthy (metadataCid body) \<and> \<not> truthy (depthMetadata body)")
  case False
  then have "resolve_calls env body = []"
    using resolve_inline [of body env fresh] resolve_absent [of body env fresh]
    by (cases "truthy (depthMetadata body)") (simp_all add: resolve_calls_def fresh_def)
  then show ?thesis ..
next
  case True
  show ?thesis
  proof (cases "toString_js (metadataCid body)")
    case (Inl e)
    then show ?thesis
      using True resolve_unprintable [of body e env fresh]
      by (simp add: resolve_calls_def fresh_def)
  next
    case (Inr cid)
    show ?thesis
    proof (cases "axios_get env (IPFS_GATEWAY env @ ''/ipfs/'' @ cid)")
      case (Inl cause)
      then show ?thesis
        using True Inr resolve_fetch_failed [of body cid env cause fresh]
        by (simp add: resolve_calls_def fresh_def)
    next
      case (Inr full)
      then show ?thesis
        using True \<open>toString_js (metadataCid body) = Inr cid\<close>
          resolve_fetched [of body cid env full fresh]
        by (auto simp: resolve_calls_def fresh_def)
    qed
  qed
qed

lemma not_in_resolve [simp]:
  "AxiosPost u d \<notin> set (resolve_calls env body)"
  "CreateNFTCollection \<notin> set (resolve_calls env body)"
  "RegisterIpAsset a \<notin> set (resolve_calls env body)"
  "AxiosPatch url upd \<notin> set (resolve_calls env body)"
  using resolve_calls_shape [of env body] by auto

section \<open>The documents\<close>

lemma build_ipMetadata_mediaType:
  "build_ipMetadata env body img dev meta murl = Inr d \<Longrightarrow>
     ip_mediaType d = (if truthy (metadataCid body) then ''application/json'' else ''image/jpeg'')"
  by (auto simp: build_ipMetadata_def split: sum.splits)

lemma build_ipMetadata_digests:
  assumes "build_ipMetadata env body img dev meta murl = Inr d"
  shows "\<exists>cid. imageCid body = JStr cid \<and> ip_imageHash d = ''0x'' @ sha256_hex env cid
           \<and> (if truthy (metadataCid body)
               then \<exists>m. metadataCid body = JStr m \<and> ip_mediaHash d = ''0x'' @ sha256_hex env m
               else ip_mediaHash d = ''0x'' @ sha256_hex env cid)"
  using assms
  by (auto simp: build_ipMetadata_def hash_update_def split: sum.splits jsval.splits if_splits)

lemma handler_asset_docs:
  "run_post (register_ip env body) s
     (\<lambda>tr c r. \<forall>u d. AxiosPost u (AssetDoc d) \<in> set tr \<longrightarrow>
        (\<exists>img dev meta murl. build_ipMetadata env body img dev meta murl = Inr d))"
  unfolding register_ip_def registration_def Let_def
  apply (intro vcg)
  apply simp_all
  apply blast+
  done

section \<open>The handler, property by property\<close>

lemma no_create_filter [simp]:
  "filter (\<lambda>k. k = CreateNFTCollection) (resolve_calls env body) = []"
  "filter (\<lambda>k. k = CreateNFTCollection) (reconcile_calls env a b c) = []"
  using not_in_resolve(2) [of env body] not_in_reconcile(2) [of env a b c]
  by (auto simp: filter_empty_conv)

lemma resolve_result_ok:
  assumes "toString_js (metadataCid body) = Inr t"
  shows "resolve_result env body \<noteq> Inl e"
proof (cases "truthy (metadataCid body) \<and> \<not> truthy (depthMetadata body)")
  case False
  then show ?thesis
    using resolve_inline [of body env fresh] resolve_absent [of body env fresh]
    by (cases "truthy (depthMetadata body)") (simp_all add: resolve_result_def)
next
  case True
  show ?thesis
  proof (cases "axios_get env (IPFS_GATEWAY env @ ''/ipfs/'' @ t)")
    case (Inl cause)
    then show ?thesis
      using True assms resolve_fetch_failed [of body t env cause fresh]
      by (simp add: resolve_result_def)
  next
    case (Inr full)
    then show ?thesis
      using True assms resolve_fetched [of body t env full fresh]
      by (auto simp: resolve_result_def)
  qed
qed

lemma handler_responds:
  "run_post (register_ip env body) s
     (\<lambda>tr c r. \<exists>resp. r = Inr resp \<and>
        (status resp = 400 \<longrightarrow>
           c = spgNftContract s \<and> (tr = [] \<or> tr = resolve_calls env body)))"
  unfolding register_ip_def registration_def Let_def
  apply (intro vcg)
  apply simp_all
  done


lemma handler_register:
  "run_post (register_ip env body) s
     (\<lambda>tr c r. \<forall>a. RegisterIpAsset a \<in> set tr \<longrightarrow>
        resolveRevShare env body = Inr (a_commercialRevShare a)
        \<and> resolveMintingFee env body = Inr (a_defaultMintingFee a)
        \<and> (\<forall>u doc. AxiosPost u (AssetDoc doc) \<in> set tr \<longrightarrow>
              a_ipMetadataHash a = ''0x'' @ sha256_hex env (stringify_ip env doc))
        \<and> (\<exists>doc. AxiosPost pinata_url (CollectibleDoc doc) \<in> set tr
              \<and> a_nftMetadataHash a = ''0x'' @ sha256_hex env (stringify_nft env doc))
        \<and> (\<forall>response. registerIpAsset env a = Inr response \<longrightarrow>
              (\<exists>result ts. r = Inr (Response 200 (RegistrationSuccess result ts))
                 \<and> r_ipId result = resp_ipId response
                 \<and> r_txHash result = resp_txHash response
                 \<and> r_tokenId result = map_option show_nat (resp_tokenId response)
                 \<and> r_explorerUrl result = ''https://aeneid.explorer.story.foundation/ipa/''
                                            @ render_hex (resp_ipId response))))"
  unfolding register_ip_def registration_def Let_def
  apply (intro vcg)
  apply simp_all
  done

lemma handler_success:
  "run_post (register_ip env body) s
     (\<lambda>tr c r. \<forall>result. success_data r = Some result \<longrightarrow>
        resolve_result env body = Inr (r_depthMetadata result)
        \<and> resolveRevShare env body = Inr (r_commercialRevShare result)
        \<and> resolveMintingFee env body = Inr (r_mintingFee result)
        \<and> (\<exists>a. RegisterIpAsset a \<in> set tr
              \<and> a_commercialRevShare a = r_commercialRevShare result))"
  unfolding register_ip_def registration_def Let_def
  apply (intro vcg)
  apply (simp_all add: success_data_def)
  done


lemma resolve_result_ok_all:
  assumes "\<forall>x. toString_js (metadataCid body) \<noteq> Inl x"
  shows "resolve_result env body \<noteq> Inl e"
proof (cases "toString_js (metadataCid body)")
  case (Inl x)
  then show ?thesis using assms by simp
next
  case (Inr t)
  then show ?thesis by (rule resolve_result_ok)
qed

lemma handler_range_check:
  "run_post (register_ip env body) s
     (\<lambda>tr c r. \<forall>rs. otherwise_valid env body \<and> resolveRevShare env body = Inr rs \<longrightarrow>
        (if num_lt rs 0 \<or> num_gt rs 100 then r = Inr (Response 400 (RevShareOutOfRange rs))
         else (\<forall>resp. r = Inr resp \<longrightarrow> status resp \<noteq> 400)))"
  unfolding register_ip_def registration_def Let_def
  apply (intro vcg)
  apply (simp_all add: otherwise_valid_def)
  apply (auto simp: isl_def resolve_result_ok_all)
  done

lemma resolve_result_contra:
  "resolve_result env body = Inl e \<Longrightarrow> \<forall>x. toString_js (metadataCid body) \<noteq> Inl x \<Longrightarrow> False"
  using resolve_result_ok_all by blast

lemma image_text_contra:
  "toString_js (imageCid body) = Inl e \<Longrightarrow>
   (case imageCid body of JStr _ \<Rightarrow> True | _ \<Rightarrow> False) \<Longrightarrow> False"
  by (cases "imageCid body") auto

lemma build_ipMetadata_contra:
  assumes "build_ipMetadata env body img dev meta murl = Inl e"
    and "case imageCid body of JStr _ \<Rightarrow> True | _ \<Rightarrow> False"
    and "case metadataCid body of JStr _ \<Rightarrow> True | v \<Rightarrow> \<not> truthy v"
  shows False
  using assms
  by (cases "imageCid body"; cases "metadataCid body")
     (auto simp: build_ipMetadata_def hash_update_def split: sum.splits if_splits)

lemma handler_publishes_built:
  "run_post (register_ip env body) s
     (\<lambda>tr c r. reaches_publish env body s \<longrightarrow>
        (\<forall>img dev meta d.
           toString_js (imageCid body) = Inr img \<and> toString_js (deviceAddress body) = Inr dev
           \<and> (if truthy (metadataCid body) then toString_js (metadataCid body) = Inr meta
               else meta = [])
           \<and> build_ipMetadata env body img dev meta
                (if truthy (metadataCid body) then ''https://gateway.pinata.cloud/ipfs/'' @ meta
                 else ''https://gateway.pinata.cloud/ipfs/'' @ img) = Inr d
           \<longrightarrow> AxiosPost pinata_url (AssetDoc d) \<in> set tr))"
  unfolding register_ip_def registration_def Let_def
  apply (intro vcg)
  apply (simp_all add: reaches_publish_def otherwise_valid_def isl_def)
  apply (auto split: if_splits
      dest: resolve_result_contra image_text_contra build_ipMetadata_contra)
  done

lemma handler_starts:
  "run_post (register_ip env body) s
     (\<lambda>tr c r. truthy (imageCid body) \<and> truthy (deviceAddress body) \<longrightarrow>
        (\<exists>rest. tr = resolve_calls env body @ rest))"
  unfolding register_ip_def registration_def Let_def
  apply (intro vcg)
  apply simp_all
  apply blast
  done



section \<open>Runs in the concrete environment\<close>

lemma show_nat_numeral [simp]:
  "show_nat (numeral k) =
     (if numeral k < (10::nat) then [digit_char (numeral k)]
      else show_nat (numeral k div 10) @ [digit_char (numeral k)])"
  by (rule show_nat.simps)

lemma show_nat_small [simp]: "show_nat 0 = ''0''" "show_nat (Suc 0) = ''1''"
  by (simp_all add: show_nat.simps [of 0] show_nat.simps [of "Suc 0"] digit_char_def)

lemma skip_no_space: "white_space_width s = 0 \<Longrightarrow> skip_white_space s = s"
  by (subst skip_white_space.simps) simp

lemma skip_space:
  "white_space_width s \<noteq> 0 \<Longrightarrow>
     skip_white_space s = skip_white_space (drop (white_space_width s) s)"
  by (subst skip_white_space.simps) simp

lemma round_small: "n < 9007199254740992 \<Longrightarrow> round_to_double n = Some n"
  by (simp add: round_to_double_def)

lemmas parse_defs =
  parseInt_def parseInt_string_def strip_prefix_def parse_digits_def is_digit_def
  digit_val_def digits_value_def white_space_width_def one_byte_spaces_def
  three_byte_spaces_def skip_no_space round_small

lemmas eval_defs =
  register_ip_def registration_def resolveDepthMetadata_def resolveMintingFee_def
  resolveRevShare_def fetchFromIPFS_def uploadJSONToIPFS_def updateSupabaseWithIPData_def
  getOrCreateCollection_def get_spgNftContract_def set_spgNftContract_def call_toString_def
  build_ipMetadata_def build_nftMetadata_def hash_update_def configured_def env_text_def
  length_is_zero_def length_gt_zero_def to_number_gt_zero_def index0_def js_or_def
  parse_defs io_defs Let_def calls_of_def pinata_url_def
  success_data_def digit_char_def

lemma sample_run_docs:
  "AxiosPost pinata_url (AssetDoc sample_asset_doc)
     \<in> set (calls_of (register_ip sample_env sample_request) fresh)"
  by (simp add: eval_defs sample_env_def sample_request_def fresh_def sample_asset_doc_def)

lemma rejected_run:
  "register_ip sample_env rejected_request fresh =
     (Inr (Response 400 (RevShareOutOfRange (Fin 101))),
      \<lparr> spgNftContract = None, calls = [AxiosGet ''https://gateway.pinata.cloud/ipfs/Qmeta1''] \<rparr>)"
  by (simp add: eval_defs sample_env_def sample_request_def rejected_request_def fresh_def
      sample_payload_def)

lemma parseInt_samples:
  "parseInt (JNum ''-1'') = Inr (Fin (- 1))"
  "parseInt (JNum ''101'') = Inr (Fin 101)"
  "parseInt (JNum ''0'') = Inr (Fin 0)"
  "parseInt (JNum ''100'') = Inr (Fin 100)"
  "parseInt (JStr ''abc'') = Inr NaN"
  by (simp_all add: parse_defs)

text \<open>
  \<open>parseInt\<close> beyond ASCII digits: a no-break space and an em space in front, the
  negative zero, a hexadecimal prefix, and integers above \<open>2^53\<close>, which are rounded
  to a double.
\<close>

lemma parseInt_wide:
  "parseInt (JStr ([CHR 0xC2, CHR 0xA0] @ ''101'')) = Inr (Fin 101)"
  "parseInt (JStr ([CHR 0xE2, CHR 0x80, CHR 0x83] @ '' -7'')) = Inr (Fin (- 7))"
  "parseInt (JStr ''-0'') = Inr MinusZero"
  "parseInt (JStr ''0x1F'') = Inr (Fin 31)"
  by (simp_all add: parse_defs skip_space)

lemma bit_length_numeral:
  "bit_length (numeral k) = Suc (bit_length (numeral k div 2))"
  by (subst bit_length.simps) simp

lemma parseInt_rounds:
  "parseInt (JStr ''9007199254740993'') = Inr (Fin 9007199254740992)"
  "parseInt (JStr ''9007199254740995'') = Inr (Fin 9007199254740996)"
  by (simp_all add: parse_defs round_to_double_def bit_length_numeral
      bit_length.simps [of 0] bit_length.simps [of "Suc 0"])

lemma no_break_space_run:
  "register_ip sample_env
     (sample_request\<lparr>commercialRevShare := JStr ([CHR 0xC2, CHR 0xA0] @ ''101'')\<rparr>) fresh
     = (Inr (Response 400 (RevShareOutOfRange (Fin 101))), fresh)"
  by (simp add: eval_defs skip_space sample_env_def sample_request_def fresh_def)

lemma sample_env_success:
  assumes "resolveRevShare sample_env (sample_request\<lparr>commercialRevShare := v\<rparr>) = Inr rs"
    and "\<not> num_lt rs 0" and "\<not> num_gt rs 100"
  shows "\<exists>result. success_data (fst (register_ip sample_env
                     (sample_request\<lparr>commercialRevShare := v\<rparr>) fresh)) = Some result"
  using assms
  by (simp add: register_ip_def registration_def resolveDepthMetadata_def resolveMintingFee_def
      call_toString_def fetchFromIPFS_def uploadJSONToIPFS_def reconciler_eq
      getOrCreateCollection_def get_spgNftContract_def set_spgNftContract_def
      build_ipMetadata_def build_nftMetadata_def hash_update_def js_or_def
      io_defs Let_def success_data_def sample_env_def sample_request_def fresh_def)

lemma handler_accepts:
  assumes "otherwise_valid env body" and "resolveRevShare env body = Inr rs"
    and "\<not> num_lt rs 0" and "\<not> num_gt rs 100"
  shows "(\<forall>resp. fst (register_ip env body s) = Inr resp \<longrightarrow> status resp \<noteq> 400)
         \<and> (\<forall>a. RegisterIpAsset a \<in> set (calls_of (register_ip env body) s) \<longrightarrow>
               a_commercialRevShare a = rs)
         \<and> (\<forall>result. success_data (fst (register_ip env body s)) = Some result \<longrightarrow>
               r_commercialRevShare result = rs)"
  using assms run_postD [OF handler_range_check, of env body s]
    run_postD [OF handler_register, of env body s]
    run_postD [OF handler_success, of env body s]
  by auto

lemma handler_rejects:
  assumes "otherwise_valid env body" and "resolveRevShare env body = Inr rs"
    and "num_lt rs 0 \<or> num_gt rs 100"
  shows "fst (register_ip env body s) = Inr (Response 400 (RevShareOutOfRange rs))"
  using assms run_postD [OF handler_range_check, of env body s]
  by auto

lemma sample_otherwise_valid:
  "otherwise_valid sample_env (sample_request\<lparr>commercialRevShare := v\<rparr>)"
  by (simp add: otherwise_valid_def sample_request_def sample_env_def resolveMintingFee_def
      call_toString_def)

lemma sample_registers:
  assumes "resolveRevShare sample_env (sample_request\<lparr>commercialRevShare := v\<rparr>) = Inr rs"
    and "\<not> num_lt rs 0" and "\<not> num_gt rs 100"
  shows "\<exists>result a.
           success_data (fst (register_ip sample_env
             (sample_request\<lparr>commercialRevShare := v\<rparr>) fresh)) = Some result
           \<and> RegisterIpAsset a \<in> set (calls_of (register_ip sample_env
                 (sample_request\<lparr>commercialRevShare := v\<rparr>)) fresh)"
  using sample_env_success [OF assms]
    run_postD [OF handler_success, of sample_env "sample_request\<lparr>commercialRevShare := v\<rparr>" fresh]
  by blast

lemmas run_defs =
  register_ip_def registration_def resolveDepthMetadata_def resolveMintingFee_def
  resolveRevShare_def fetchFromIPFS_def uploadJSONToIPFS_def reconciler_eq
  getOrCreateCollection_def get_spgNftContract_def set_spgNftContract_def call_toString_def
  build_ipMetadata_def build_nftMetadata_def hash_update_def js_or_def
  parse_defs io_defs Let_def success_data_def

lemma both_run_depth:
  "map_option r_depthMetadata (success_data (fst (register_ip sample_env both_request fresh)))
     = Some (JObj [(''inline'', JNum ''1'')])"
  by (simp add: run_defs sample_env_def sample_request_def both_request_def fresh_def)

lemma both_run_no_fetch:
  "AxiosGet ''https://gateway.pinata.cloud/ipfs/Qmeta1''
     \<notin> set (calls_of (register_ip sample_env both_request) fresh)"
  by (simp add: eval_defs sample_env_def sample_request_def both_request_def fresh_def)

lemma fetched_depth:
  "resolve_result sample_env (both_request\<lparr>depthMetadata := JUndefined\<rparr>)
     = Inr (JObj [(''points'', JNum ''3'')])"
  by (simp add: resolve_result_def eval_defs sample_env_def sample_request_def both_request_def
      fresh_def sample_payload_def)

lemma sample_success_any_state:
  "\<exists>result. success_data (fst (register_ip sample_env sample_request s)) = Some result"
  by (simp add: run_defs sample_env_def sample_request_def split: option.splits)

lemma store_down_success:
  "\<exists>result. success_data (fst (register_ip store_down_env sample_request fresh)) = Some result"
  by (simp add: run_defs store_down_env_def sample_env_def sample_request_def fresh_def)

lemma store_down_reconciler:
  "updateSupabaseWithIPData store_down_env ''Qimg1'' ''u'' ''t'' fresh
     = (Inr JNull, \<lparr> spgNftContract = None,
          calls = [AxiosGet ''https://db.example/rest/v1/images?image_cid=eq.Qimg1&select=wallet_address,image_cid,metadata_cid''] \<rparr>)"
  by (simp add: eval_defs store_down_env_def sample_env_def fresh_def)



lemma store_down_metadata_success:
  "\<exists>result. success_data (fst (register_ip store_down_env metadata_request fresh)) = Some result"
  by (simp add: run_defs store_down_env_def sample_env_def sample_request_def
      metadata_request_def fresh_def)





section \<open>The claims\<close>

text \<open>
  C1, as stated, fails. The range check of the revenue share comes after the resolution
  of the depth metadata: a request with a metadata identifier, no inline depth metadata
  and a revenue share of 101 is rejected with 400 after the storage fetch has been made.
\<close>

theorem validation_counterexample:
  "fst (register_ip sample_env rejected_request fresh)
     = Inr (Response 400 (RevShareOutOfRange (Fin 101)))
   \<and> calls_of (register_ip sample_env rejected_request) fresh
     = [AxiosGet ''https://gateway.pinata.cloud/ipfs/Qmeta1'']"
  unfolding calls_of_def rejected_run by (simp add: fresh_def)

text \<open>
  C1, amended. A request without \<open>imageCid\<close> or \<open>deviceAddress\<close> is answered 400 with
  no call made and the state unchanged. Every answer 400 leaves the collection handle as
  it was, and the run has made no call at all or exactly one: the storage fetch of
  \<open>metadataCid\<close>, which the handler makes before the range check when the request
  carries a metadata identifier and no inline depth metadata. No publish, no chain call
  and no access to the record store precedes a rejection.
\<close>

theorem validation_before_calls:
  "(\<not> truthy (imageCid body) \<or> \<not> truthy (deviceAddress body) \<longrightarrow>
      register_ip env body s = (Inr (Response 400 MissingRequiredFields), s))
   \<and> (\<forall>resp. fst (register_ip env body s) = Inr resp \<and> status resp = 400 \<longrightarrow>
        spgNftContract (snd (register_ip env body s)) = spgNftContract s
        \<and> (calls_of (register_ip env body) s = []
           \<or> (\<exists>cid. truthy (metadataCid body) \<and> \<not> truthy (depthMetadata body)
                 \<and> toString_js (metadataCid body) = Inr cid
                 \<and> calls_of (register_ip env body) s
                     = [AxiosGet (IPFS_GATEWAY env @ ''/ipfs/'' @ cid)])))"
proof (intro conjI impI allI)
  assume "\<not> truthy (imageCid body) \<or> \<not> truthy (deviceAddress body)"
  then show "register_ip env body s = (Inr (Response 400 MissingRequiredFields), s)"
    by (auto simp: register_ip_def io_defs)
next
  fix resp
  assume a: "fst (register_ip env body s) = Inr resp \<and> status resp = 400"
  have "\<exists>resp'. fst (register_ip env body s) = Inr resp' \<and>
          (status resp' = 400 \<longrightarrow>
             spgNftContract (snd (register_ip env body s)) = spgNftContract s
             \<and> (calls_of (register_ip env body) s = []
                \<or> calls_of (register_ip env body) s = resolve_calls env body))"
    by (rule run_postD [OF handler_responds])
  with a have c: "spgNftContract (snd (register_ip env body s)) = spgNftContract s"
    and t: "calls_of (register_ip env body) s = []
            \<or> calls_of (register_ip env body) s = resolve_calls env body"
    by auto
  from c show "spgNftContract (snd (register_ip env body s)) = spgNftContract s" .
  from t resolve_calls_shape [of env body]
  show "calls_of (register_ip env body) s = []
        \<or> (\<exists>cid. truthy (metadataCid body) \<and> \<not> truthy (depthMetadata body)
              \<and> toString_js (metadataCid body) = Inr cid
              \<and> calls_of (register_ip env body) s
                  = [AxiosGet (IPFS_GATEWAY env @ ''/ipfs/'' @ cid)])"
    by auto
qed

theorem validation_before_calls_witness:
  "\<not> truthy (imageCid (sample_request\<lparr>imageCid := JUndefined\<rparr>))
   \<and> register_ip sample_env (sample_request\<lparr>imageCid := JUndefined\<rparr>) fresh
       = (Inr (Response 400 MissingRequiredFields), fresh)
   \<and> fst (register_ip sample_env rejected_request fresh)
       = Inr (Response 400 (RevShareOutOfRange (Fin 101)))
   \<and> status (Response 400 (RevShareOutOfRange (Fin 101))) = 400
   \<and> spgNftContract (snd (register_ip sample_env rejected_request fresh)) = spgNftContract fresh
   \<and> (calls_of (register_ip sample_env rejected_request) fresh = []
      \<or> (\<exists>cid. toString_js (metadataCid rejected_request) = Inr cid
            \<and> calls_of (register_ip sample_env rejected_request) fresh
                = [AxiosGet (IPFS_GATEWAY sample_env @ ''/ipfs/'' @ cid)]))"
proof -
  have 1: "\<not> truthy (imageCid (sample_request\<lparr>imageCid := JUndefined\<rparr>))"
    by simp
  have 2: "fst (register_ip sample_env rejected_request fresh)
             = Inr (Response 400 (RevShareOutOfRange (Fin 101)))
           \<and> status (Response 400 (RevShareOutOfRange (Fin 101))) = 400"
    by (simp add: rejected_run)
  show ?thesis
    using 1 2
      validation_before_calls [of "sample_request\<lparr>imageCid := JUndefined\<rparr>" sample_env fresh]
      validation_before_calls [of rejected_request sample_env fresh]
    by blast
qed

text \<open>
  C2. The record reconciler never raises. From every state, for every environment and
  every three strings, \<open>updateSupabaseWithIPData\<close> returns a value: \<open>null\<close>, or a row
  whose \<open>ip\<close> and \<open>tx_hash\<close> are the values written; the calls it makes are calls to
  the record store. And whenever a run of the handler has called the chain registration
  and that call succeeded, the answer is the success answer, filled from the answer of
  the chain, whatever the record store did.
\<close>

theorem reconciler_never_raises:
  "(\<exists>row tr. updateSupabaseWithIPData env cid ipUrl tx s = (Inr row, s\<lparr>calls := calls s @ tr\<rparr>)
       \<and> list_all is_record_store_call tr
       \<and> (row = JNull \<or>
           (get_prop row ''ip'' = Inr (JStr ipUrl) \<and> get_prop row ''tx_hash'' = Inr (JStr tx))))
   \<and> (\<forall>a response.
         RegisterIpAsset a \<in> set (calls_of (register_ip env body) s0)
         \<and> registerIpAsset env a = Inr response \<longrightarrow>
         (\<exists>result ts.
            fst (register_ip env body s0) = Inr (Response 200 (RegistrationSuccess result ts))
            \<and> r_ipId result = resp_ipId response
            \<and> r_txHash result = resp_txHash response
            \<and> r_tokenId result = map_option show_nat (resp_tokenId response)
            \<and> r_explorerUrl result = ''https://aeneid.explorer.story.foundation/ipa/''
                                       @ render_hex (resp_ipId response)))"
proof
  show "\<exists>row tr. updateSupabaseWithIPData env cid ipUrl tx s = (Inr row, s\<lparr>calls := calls s @ tr\<rparr>)
       \<and> list_all is_record_store_call tr
       \<and> (row = JNull \<or>
           (get_prop row ''ip'' = Inr (JStr ipUrl) \<and> get_prop row ''tx_hash'' = Inr (JStr tx)))"
    using reconciler_eq [of env cid ipUrl tx s] reconcile_calls_kind [of env cid ipUrl tx]
      reconcile_row_matches [of env cid ipUrl tx]
    by blast
  show "\<forall>a response.
         RegisterIpAsset a \<in> set (calls_of (register_ip env body) s0)
         \<and> registerIpAsset env a = Inr response \<longrightarrow>
         (\<exists>result ts.
            fst (register_ip env body s0) = Inr (Response 200 (RegistrationSuccess result ts))
            \<and> r_ipId result = resp_ipId response
            \<and> r_txHash result = resp_txHash response
            \<and> r_tokenId result = map_option show_nat (resp_tokenId response)
            \<and> r_explorerUrl result = ''https://aeneid.explorer.story.foundation/ipa/''
                                       @ render_hex (resp_ipId response))"
    using run_postD [OF handler_register, of env body s0] by blast
qed

theorem reconciler_never_raises_witness:
  "updateSupabaseWithIPData store_down_env ''Qimg1'' ''u'' ''t'' fresh
     = (Inr JNull, fresh\<lparr>calls := calls fresh @
          [AxiosGet ''https://db.example/rest/v1/images?image_cid=eq.Qimg1&select=wallet_address,image_cid,metadata_cid'']\<rparr>)
   \<and> (\<exists>a response result ts.
         RegisterIpAsset a \<in> set (calls_of (register_ip store_down_env sample_request) fresh)
         \<and> registerIpAsset store_down_env a = Inr response
         \<and> fst (register_ip store_down_env sample_request fresh)
             = Inr (Response 200 (RegistrationSuccess result ts))
         \<and> r_ipId result = resp_ipId response
         \<and> r_txHash result = resp_txHash response)"
proof -
  have 1: "updateSupabaseWithIPData store_down_env ''Qimg1'' ''u'' ''t'' fresh
     = (Inr JNull, fresh\<lparr>calls := calls fresh @
          [AxiosGet ''https://db.example/rest/v1/images?image_cid=eq.Qimg1&select=wallet_address,image_cid,metadata_cid'']\<rparr>)"
    unfolding store_down_reconciler by (simp add: fresh_def)
  obtain a where a: "RegisterIpAsset a \<in> set (calls_of (register_ip store_down_env sample_request) fresh)"
    using store_down_success run_postD [OF handler_success, of store_down_env sample_request fresh]
    by blast
  obtain response where r: "registerIpAsset store_down_env a = Inr response"
    by (simp add: store_down_env_def sample_env_def)
  show ?thesis
    using 1 a r
      reconciler_never_raises [of store_down_env "''Qimg1''" "''u''" "''t''" fresh sample_request fresh]
    by blast
qed

text \<open>
  C3, as stated, fails. The handler fetches the metadata identifier only when the request
  has no inline depth metadata. With both supplied the gateway is not asked, although it
  would have served a payload with depth data, and the answer echoes the inline value.
\<close>

theorem inline_depth_counterexample:
  "truthy (depthMetadata both_request) \<and> truthy (metadataCid both_request)
   \<and> resolve_result sample_env (both_request\<lparr>depthMetadata := JUndefined\<rparr>)
       = Inr (JObj [(''points'', JNum ''3'')])
   \<and> map_option r_depthMetadata (success_data (fst (register_ip sample_env both_request fresh)))
       = Some (JObj [(''inline'', JNum ''1'')])
   \<and> AxiosGet ''https://gateway.pinata.cloud/ipfs/Qmeta1''
       \<notin> set (calls_of (register_ip sample_env both_request) fresh)"
  using fetched_depth both_run_depth both_run_no_fetch
  by (simp add: both_request_def)

text \<open>
  C3, amended. For every request that supplies inline depth metadata (with or without a
  metadata identifier), metadata resolution makes no call and yields the inline value,
  and a success answer echoes that inline value as its depth metadata.
\<close>

theorem inline_depth_metadata_wins:
  assumes "truthy (depthMetadata body)"
  shows "resolveDepthMetadata env body s = (Inr (depthMetadata body), s)
         \<and> (\<forall>result. success_data (fst (register_ip env body s)) = Some result \<longrightarrow>
               r_depthMetadata result = depthMetadata body)"
proof
  show "resolveDepthMetadata env body s = (Inr (depthMetadata body), s)"
    using assms by (rule resolve_inline)
  have "resolve_result env body = Inr (depthMetadata body)"
    using resolve_inline [OF assms, of env fresh] by (simp add: resolve_result_def)
  then show "\<forall>result. success_data (fst (register_ip env body s)) = Some result \<longrightarrow>
               r_depthMetadata result = depthMetadata body"
    using run_postD [OF handler_success, of env body s] by auto
qed

theorem inline_depth_metadata_wins_witness:
  "truthy (depthMetadata both_request)
   \<and> resolveDepthMetadata sample_env both_request fresh
       = (Inr (JObj [(''inline'', JNum ''1'')]), fresh)
   \<and> (\<exists>result. success_data (fst (register_ip sample_env both_request fresh)) = Some result
         \<and> r_depthMetadata result = JObj [(''inline'', JNum ''1'')])"
proof -
  have t: "truthy (depthMetadata both_request)"
    and d: "depthMetadata both_request = JObj [(''inline'', JNum ''1'')]"
    by (simp_all add: both_request_def)
  obtain result where "success_data (fst (register_ip sample_env both_request fresh)) = Some result"
    using both_run_depth by auto
  then show ?thesis
    using t d inline_depth_metadata_wins [OF t, of sample_env fresh] by auto
qed




text \<open>
  C5. The bounds of the revenue share. For every request that is valid but for its
  revenue share, \<open>commercialRevShare\<close> of -1 or of 101 is answered 400, while 0 and 100
  pass the check: the answer is not a 400, every registration call of the run carries
  the value as its revenue share and a success answer echoes it.
\<close>

theorem rev_share_bounds:
  assumes "otherwise_valid env body"
  shows "(commercialRevShare body = JNum ''-1'' \<longrightarrow>
            fst (register_ip env body s) = Inr (Response 400 (RevShareOutOfRange (Fin (- 1)))))
       \<and> (commercialRevShare body = JNum ''101'' \<longrightarrow>
            fst (register_ip env body s) = Inr (Response 400 (RevShareOutOfRange (Fin 101))))
       \<and> (commercialRevShare body = JNum ''0'' \<longrightarrow>
            (\<forall>resp. fst (register_ip env body s) = Inr resp \<longrightarrow> status resp \<noteq> 400)
            \<and> (\<forall>a. RegisterIpAsset a \<in> set (calls_of (register_ip env body) s) \<longrightarrow>
                  a_commercialRevShare a = Fin 0)
            \<and> (\<forall>result. success_data (fst (register_ip env body s)) = Some result \<longrightarrow>
                  r_commercialRevShare result = Fin 0))
       \<and> (commercialRevShare body = JNum ''100'' \<longrightarrow>
            (\<forall>resp. fst (register_ip env body s) = Inr resp \<longrightarrow> status resp \<noteq> 400)
            \<and> (\<forall>a. RegisterIpAsset a \<in> set (calls_of (register_ip env body) s) \<longrightarrow>
                  a_commercialRevShare a = Fin 100)
            \<and> (\<forall>result. success_data (fst (register_ip env body s)) = Some result \<longrightarrow>
                  r_commercialRevShare result = Fin 100))"
proof -
  have low: "commercialRevShare body = JNum ''-1'' \<longrightarrow>
            fst (register_ip env body s) = Inr (Response 400 (RevShareOutOfRange (Fin (- 1))))"
  proof
    assume "commercialRevShare body = JNum ''-1''"
    then have "resolveRevShare env body = Inr (Fin (- 1))"
      by (simp add: resolveRevShare_def parseInt_samples)
    then show "fst (register_ip env body s)
                 = Inr (Response 400 (RevShareOutOfRange (Fin (- 1))))"
      using assms by (intro handler_rejects) simp_all
  qed
  have high: "commercialRevShare body = JNum ''101'' \<longrightarrow>
            fst (register_ip env body s) = Inr (Response 400 (RevShareOutOfRange (Fin 101)))"
  proof
    assume "commercialRevShare body = JNum ''101''"
    then have "resolveRevShare env body = Inr (Fin 101)"
      by (simp add: resolveRevShare_def parseInt_samples)
    then show "fst (register_ip env body s) = Inr (Response 400 (RevShareOutOfRange (Fin 101)))"
      using assms by (intro handler_rejects) simp_all
  qed
  have zero: "commercialRevShare body = JNum ''0'' \<longrightarrow>
            (\<forall>resp. fst (register_ip env body s) = Inr resp \<longrightarrow> status resp \<noteq> 400)
            \<and> (\<forall>a. RegisterIpAsset a \<in> set (calls_of (register_ip env body) s) \<longrightarrow>
                  a_commercialRevShare a = Fin 0)
            \<and> (\<forall>result. success_data (fst (register_ip env body s)) = Some result \<longrightarrow>
                  r_commercialRevShare result = Fin 0)"
  proof
    assume "commercialRevShare body = JNum ''0''"
    then have "resolveRevShare env body = Inr (Fin 0)"
      by (simp add: resolveRevShare_def parseInt_samples)
    then show "(\<forall>resp. fst (register_ip env body s) = Inr resp \<longrightarrow> status resp \<noteq> 400)
         \<and> (\<forall>a. RegisterIpAsset a \<in> set (calls_of (register_ip env body) s) \<longrightarrow>
               a_commercialRevShare a = Fin 0)
         \<and> (\<forall>result. success_data (fst (register_ip env body s)) = Some result \<longrightarrow>
               r_commercialRevShare result = Fin 0)"
      using assms by (intro handler_accepts) simp_all
  qed
  have full: "commercialRevShare body = JNum ''100'' \<longrightarrow>
            (\<forall>resp. fst (register_ip env body s) = Inr resp \<longrightarrow> status resp \<noteq> 400)
            \<and> (\<forall>a. RegisterIpAsset a \<in> set (calls_of (register_ip env body) s) \<longrightarrow>
                  a_commercialRevShare a = Fin 100)
            \<and> (\<forall>result. success_data (fst (register_ip env body s)) = Some result \<longrightarrow>
                  r_commercialRevShare result = Fin 100)"
  proof
    assume "commercialRevShare body = JNum ''100''"
    then have "resolveRevShare env body = Inr (Fin 100)"
      by (simp add: resolveRevShare_def parseInt_samples)
    then show "(\<forall>resp. fst (register_ip env body s) = Inr resp \<longrightarrow> status resp \<noteq> 400)
         \<and> (\<forall>a. RegisterIpAsset a \<in> set (calls_of (register_ip env body) s) \<longrightarrow>
               a_commercialRevShare a = Fin 100)
         \<and> (\<forall>result. success_data (fst (register_ip env body s)) = Some result \<longrightarrow>
               r_commercialRevShare result = Fin 100)"
      using assms by (intro handler_accepts) simp_all
  qed
  show ?thesis
    by (rule conjI [OF low conjI [OF high conjI [OF zero full]]])
qed

theorem rev_share_bounds_witness:
  "otherwise_valid sample_env (sample_request\<lparr>commercialRevShare := JNum ''-1''\<rparr>)
   \<and> fst (register_ip sample_env (sample_request\<lparr>commercialRevShare := JNum ''-1''\<rparr>) fresh)
       = Inr (Response 400 (RevShareOutOfRange (Fin (- 1))))
   \<and> fst (register_ip sample_env (sample_request\<lparr>commercialRevShare := JNum ''101''\<rparr>) fresh)
       = Inr (Response 400 (RevShareOutOfRange (Fin 101)))
   \<and> (\<exists>result a.
         success_data (fst (register_ip sample_env
           (sample_request\<lparr>commercialRevShare := JNum ''0''\<rparr>) fresh)) = Some result
         \<and> r_commercialRevShare result = Fin 0
         \<and> RegisterIpAsset a \<in> set (calls_of (register_ip sample_env
               (sample_request\<lparr>commercialRevShare := JNum ''0''\<rparr>)) fresh)
         \<and> a_commercialRevShare a = Fin 0)
   \<and> (\<exists>result a.
         success_data (fst (register_ip sample_env
           (sample_request\<lparr>commercialRevShare := JNum ''100''\<rparr>) fresh)) = Some result
         \<and> r_commercialRevShare result = Fin 100
         \<and> RegisterIpAsset a \<in> set (calls_of (register_ip sample_env
               (sample_request\<lparr>commercialRevShare := JNum ''100''\<rparr>)) fresh)
         \<and> a_commercialRevShare a = Fin 100)"
proof -
  have r0: "resolveRevShare sample_env (sample_request\<lparr>commercialRevShare := JNum ''0''\<rparr>)
              = Inr (Fin 0)"
    and r100: "resolveRevShare sample_env (sample_request\<lparr>commercialRevShare := JNum ''100''\<rparr>)
              = Inr (Fin 100)"
    by (simp_all add: resolveRevShare_def parseInt_samples)
  note b = rev_share_bounds [OF sample_otherwise_valid, of _ fresh, simplified]
  show ?thesis
    using sample_otherwise_valid [of "JNum ''-1''"]
      b [of "JNum ''-1''"] b [of "JNum ''101''"] b [of "JNum ''0''"] b [of "JNum ''100''"]
      sample_registers [OF r0] sample_registers [OF r100]
    by (simp (no_asm_use)) blast
qed

text \<open>
  C6. The digests. For every asset metadata document that a run publishes, the image
  identifier of the request is a string and the image hash of the document is \<open>0x\<close>
  followed by the digest of that string; the media hash is the digest of the metadata
  identifier when the request has one, of the image identifier otherwise; every chain
  registration of the run binds the digest of the serialised asset document and the
  digest of the serialised collectible document that the run has published; and two
  documents published for the same image identifier have the same image hash.
\<close>

theorem digest_fields:
  assumes "AxiosPost u (AssetDoc d) \<in> set (calls_of (register_ip env body) s)"
  shows "\<exists>cid. imageCid body = JStr cid
           \<and> ip_imageHash d = ''0x'' @ sha256_hex env cid
           \<and> (if truthy (metadataCid body)
               then \<exists>m. metadataCid body = JStr m \<and> ip_mediaHash d = ''0x'' @ sha256_hex env m
               else ip_mediaHash d = ''0x'' @ sha256_hex env cid)
           \<and> (\<forall>a. RegisterIpAsset a \<in> set (calls_of (register_ip env body) s) \<longrightarrow>
                 a_ipMetadataHash a = ''0x'' @ sha256_hex env (stringify_ip env d)
                 \<and> (\<exists>n. AxiosPost pinata_url (CollectibleDoc n)
                           \<in> set (calls_of (register_ip env body) s)
                        \<and> a_nftMetadataHash a = ''0x'' @ sha256_hex env (stringify_nft env n)))
           \<and> (\<forall>body' s' u' d'.
                 AxiosPost u' (AssetDoc d') \<in> set (calls_of (register_ip env body') s')
                 \<and> imageCid body' = imageCid body \<longrightarrow> ip_imageHash d' = ip_imageHash d)"
proof -
  obtain img dev meta murl where "build_ipMetadata env body img dev meta murl = Inr d"
    using run_postD [OF handler_asset_docs, of env body s] assms by blast
  then obtain cid where cid: "imageCid body = JStr cid"
    and ih: "ip_imageHash d = ''0x'' @ sha256_hex env cid"
    and mh: "if truthy (metadataCid body)
             then \<exists>m. metadataCid body = JStr m \<and> ip_mediaHash d = ''0x'' @ sha256_hex env m
             else ip_mediaHash d = ''0x'' @ sha256_hex env cid"
    using build_ipMetadata_digests by blast
  have reg: "\<forall>a. RegisterIpAsset a \<in> set (calls_of (register_ip env body) s) \<longrightarrow>
                 a_ipMetadataHash a = ''0x'' @ sha256_hex env (stringify_ip env d)
                 \<and> (\<exists>n. AxiosPost pinata_url (CollectibleDoc n)
                           \<in> set (calls_of (register_ip env body) s)
                        \<and> a_nftMetadataHash a = ''0x'' @ sha256_hex env (stringify_nft env n))"
    using run_postD [OF handler_register, of env body s] assms by blast
  have same: "ip_imageHash d' = ip_imageHash d"
    if h: "AxiosPost u' (AssetDoc d') \<in> set (calls_of (register_ip env body') s')
        \<and> imageCid body' = imageCid body" for body' s' u' d'
  proof -
    obtain img' dev' meta' murl' where "build_ipMetadata env body' img' dev' meta' murl' = Inr d'"
      using run_postD [OF handler_asset_docs, of env body' s'] h by blast
    then show ?thesis
      using build_ipMetadata_digests [of env body' img' dev' meta' murl' d'] h cid ih by auto
  qed
  from cid ih mh reg same show ?thesis
    by blast
qed

theorem digest_fields_witness:
  "AxiosPost pinata_url (AssetDoc sample_asset_doc)
     \<in> set (calls_of (register_ip sample_env sample_request) fresh)
   \<and> imageCid sample_request = JStr ''Qimg1''
   \<and> ip_imageHash sample_asset_doc = ''0x'' @ sha256_hex sample_env ''Qimg1''
   \<and> ip_mediaHash sample_asset_doc = ''0x'' @ sha256_hex sample_env ''Qimg1''
   \<and> (\<exists>a. RegisterIpAsset a \<in> set (calls_of (register_ip sample_env sample_request) fresh)
         \<and> a_ipMetadataHash a
             = ''0x'' @ sha256_hex sample_env (stringify_ip sample_env sample_asset_doc))"
proof -
  obtain a where a: "RegisterIpAsset a \<in> set (calls_of (register_ip sample_env sample_request) fresh)"
    using sample_success_any_state [of fresh]
      run_postD [OF handler_success, of sample_env sample_request fresh]
    by blast
  have i: "imageCid sample_request = JStr ''Qimg1''" and m: "\<not> truthy (metadataCid sample_request)"
    by (simp_all add: sample_request_def)
  show ?thesis
    using a i m sample_run_docs digest_fields [OF sample_run_docs]
    by auto
qed

text \<open>
  C7. A failed fetch is recoverable. When the request has a metadata identifier and no
  inline depth metadata and the gateway fails, metadata resolution does not raise: it
  returns the placeholder object that holds the identifier, after the one fetch. A
  success answer of the run echoes the placeholder. And whenever the request and the
  process are such that a run gets as far as publishing, the run goes on after the failed
  fetch, which is its first call, and publishes the asset metadata document of the
  request: its title and creation time from the clock, the description and the
  attribute \<open>DepthDataURL\<close> with the gateway address of the metadata identifier, the
  image and media addresses and their digests, the media type \<open>application/json\<close> and
  the identifiers among the attributes.
\<close>

theorem fetch_failure_falls_back:
  assumes "truthy (metadataCid body)" and "\<not> truthy (depthMetadata body)"
    and "toString_js (metadataCid body) = Inr cid"
    and "axios_get env (IPFS_GATEWAY env @ ''/ipfs/'' @ cid) = Inl cause"
  shows "resolveDepthMetadata env body s
           = (Inr (JObj [(''metadataCid'', metadataCid body)]),
              s\<lparr>calls := calls s @ [AxiosGet (IPFS_GATEWAY env @ ''/ipfs/'' @ cid)]\<rparr>)
         \<and> (\<forall>result. success_data (fst (register_ip env body s)) = Some result \<longrightarrow>
               r_depthMetadata result = JObj [(''metadataCid'', metadataCid body)])
         \<and> (reaches_publish env body s \<longrightarrow>
               (\<exists>img dev rest.
                  imageCid body = JStr img \<and> toString_js (deviceAddress body) = Inr dev
                  \<and> calls_of (register_ip env body) s
                      = AxiosGet (IPFS_GATEWAY env @ ''/ipfs/'' @ cid) # rest
                  \<and> AxiosPost pinata_url
                      (AssetDoc
                         \<lparr> ip_title = ''DeepShare Evidence - '' @ show_nat (clock env TitleTime),
                           ip_description =
                             ''Evidence capture with depth mapping. Full depth data stored at: ''
                             @ ''https://gateway.pinata.cloud/ipfs/'' @ cid,
                           ip_createdAt = show_nat (clock env CreatedAtTime div 1000),
                           ip_creators = [\<lparr> c_name = ''DeepShare Device'',
                                            c_address = deviceAddress body,
                                            c_contributionPercent = 100 \<rparr>],
                           ip_image = ''ipfs://'' @ img,
                           ip_imageHash = ''0x'' @ sha256_hex env img,
                           ip_mediaUrl = ''ipfs://'' @ cid,
                           ip_mediaHash = ''0x'' @ sha256_hex env cid,
                           ip_mediaType = ''application/json'',
                           ip_attributes =
                             [(''Platform'', JStr ''DeepShare''),
                              (''Type'', JStr ''Evidence with Depth Mapping''),
                              (''Device'', deviceAddress body),
                              (''ImageCID'', JStr img),
                              (''MetadataCID'', JStr cid),
                              (''DepthDataURL'',
                               JStr (''https://gateway.pinata.cloud/ipfs/'' @ cid))] \<rparr>)
                      \<in> set rest))"
proof -
  have res: "resolveDepthMetadata env body s
           = (Inr (JObj [(''metadataCid'', metadataCid body)]),
              s\<lparr>calls := calls s @ [AxiosGet (IPFS_GATEWAY env @ ''/ipfs/'' @ cid)]\<rparr>)" for s
    using assms by (rule resolve_fetch_failed)
  have rr: "resolve_result env body = Inr (JObj [(''metadataCid'', metadataCid body)])"
    and rc: "resolve_calls env body = [AxiosGet (IPFS_GATEWAY env @ ''/ipfs/'' @ cid)]"
    using res [of fresh] by (simp_all add: resolve_result_def resolve_calls_def fresh_def)
  have echo: "\<forall>result. success_data (fst (register_ip env body s)) = Some result \<longrightarrow>
               r_depthMetadata result = JObj [(''metadataCid'', metadataCid body)]"
    using rr run_postD [OF handler_success, of env body s] by auto
  have pub: "\<exists>img dev rest.
                  imageCid body = JStr img \<and> toString_js (deviceAddress body) = Inr dev
                  \<and> calls_of (register_ip env body) s
                      = AxiosGet (IPFS_GATEWAY env @ ''/ipfs/'' @ cid) # rest
                  \<and> AxiosPost pinata_url
                      (AssetDoc
                         \<lparr> ip_title = ''DeepShare Evidence - '' @ show_nat (clock env TitleTime),
                           ip_description =
                             ''Evidence capture with depth mapping. Full depth data stored at: ''
                             @ ''https://gateway.pinata.cloud/ipfs/'' @ cid,
                           ip_createdAt = show_nat (clock env CreatedAtTime div 1000),
                           ip_creators = [\<lparr> c_name = ''DeepShare Device'',
                                            c_address = deviceAddress body,
                                            c_contributionPercent = 100 \<rparr>],
                           ip_image = ''ipfs://'' @ img,
                           ip_imageHash = ''0x'' @ sha256_hex env img,
                           ip_mediaUrl = ''ipfs://'' @ cid,
                           ip_mediaHash = ''0x'' @ sha256_hex env cid,
                           ip_mediaType = ''application/json'',
                           ip_attributes =
                             [(''Platform'', JStr ''DeepShare''),
                              (''Type'', JStr ''Evidence with Depth Mapping''),
                              (''Device'', deviceAddress body),
                              (''ImageCID'', JStr img),
                              (''MetadataCID'', JStr cid),
                              (''DepthDataURL'',
                               JStr (''https://gateway.pinata.cloud/ipfs/'' @ cid))] \<rparr>)
                      \<in> set rest"
    if p: "reaches_publish env body s"
  proof -
    obtain img where img: "imageCid body = JStr img"
      using p by (cases "imageCid body") (simp_all add: reaches_publish_def)
    obtain dev where dev: "toString_js (deviceAddress body) = Inr dev"
      using p by (cases "toString_js (deviceAddress body)") (simp_all add: reaches_publish_def)
    have mc: "metadataCid body = JStr cid"
      using p assms(1,3) by (cases "metadataCid body") (simp_all add: reaches_publish_def)
    have valid: "truthy (imageCid body) \<and> truthy (deviceAddress body)"
      using p by (simp add: reaches_publish_def otherwise_valid_def)
    let ?url = "''https://gateway.pinata.cloud/ipfs/'' @ cid"
    let ?doc = "\<lparr> ip_title = ''DeepShare Evidence - '' @ show_nat (clock env TitleTime),
                           ip_description =
                             ''Evidence capture with depth mapping. Full depth data stored at: ''
                             @ ''https://gateway.pinata.cloud/ipfs/'' @ cid,
                           ip_createdAt = show_nat (clock env CreatedAtTime div 1000),
                           ip_creators = [\<lparr> c_name = ''DeepShare Device'',
                                            c_address = deviceAddress body,
                                            c_contributionPercent = 100 \<rparr>],
                           ip_image = ''ipfs://'' @ img,
                           ip_imageHash = ''0x'' @ sha256_hex env img,
                           ip_mediaUrl = ''ipfs://'' @ cid,
                           ip_mediaHash = ''0x'' @ sha256_hex env cid,
                           ip_mediaType = ''application/json'',
                           ip_attributes =
                             [(''Platform'', JStr ''DeepShare''),
                              (''Type'', JStr ''Evidence with Depth Mapping''),
                              (''Device'', deviceAddress body),
                              (''ImageCID'', JStr img),
                              (''MetadataCID'', JStr cid),
                              (''DepthDataURL'',
                               JStr (''https://gateway.pinata.cloud/ipfs/'' @ cid))] \<rparr>"
    have built: "build_ipMetadata env body img dev cid ?url = Inr ?doc"
      using img mc assms(1) by (simp add: build_ipMetadata_def hash_update_def js_or_def)
    have "AxiosPost pinata_url (AssetDoc ?doc) \<in> set (calls_of (register_ip env body) s)"
      using run_postD [OF handler_publishes_built, of env body s] p img dev mc assms(1) built
      by simp
    moreover obtain rest where
      rest: "calls_of (register_ip env body) s = AxiosGet (IPFS_GATEWAY env @ ''/ipfs/'' @ cid) # rest"
      using run_postD [OF handler_starts [of env body s]] valid rc by auto
    ultimately have "AxiosPost pinata_url (AssetDoc ?doc) \<in> set rest"
      by simp
    with img dev rest show ?thesis
      by blast
  qed
  show ?thesis
    using res [of s] echo pub by blast
qed

theorem fetch_failure_falls_back_witness:
  "truthy (metadataCid metadata_request) \<and> \<not> truthy (depthMetadata metadata_request)
   \<and> toString_js (metadataCid metadata_request) = Inr ''Qmeta1''
   \<and> axios_get store_down_env (IPFS_GATEWAY store_down_env @ ''/ipfs/'' @ ''Qmeta1'')
       = Inl (Error ''Network Error'')
   \<and> reaches_publish store_down_env metadata_request fresh
   \<and> (\<exists>result. success_data (fst (register_ip store_down_env metadata_request fresh))
                  = Some result
         \<and> r_depthMetadata result = JObj [(''metadataCid'', JStr ''Qmeta1'')])
   \<and> (\<exists>rest. calls_of (register_ip store_down_env metadata_request) fresh
                = AxiosGet ''https://gateway.pinata.cloud/ipfs/Qmeta1'' # rest
         \<and> AxiosPost pinata_url (AssetDoc fallback_asset_doc) \<in> set rest)"
proof -
  have h: "truthy (metadataCid metadata_request)" "\<not> truthy (depthMetadata metadata_request)"
    "toString_js (metadataCid metadata_request) = Inr ''Qmeta1''"
    "axios_get store_down_env (IPFS_GATEWAY store_down_env @ ''/ipfs/'' @ ''Qmeta1'')
       = Inl (Error ''Network Error'')"
    by (simp_all add: metadata_request_def sample_request_def store_down_env_def)
  have m: "metadataCid metadata_request = JStr ''Qmeta1''"
    by (simp add: metadata_request_def)
  have p: "reaches_publish store_down_env metadata_request fresh"
    by (simp add: reaches_publish_def otherwise_valid_def metadata_request_def sample_request_def
        store_down_env_def sample_env_def fresh_def resolveMintingFee_def call_toString_def
        resolveRevShare_def parse_defs)
  note fall = fetch_failure_falls_back [OF h, of fresh]
  have echo: "\<forall>result. success_data (fst (register_ip store_down_env metadata_request fresh))
                 = Some result \<longrightarrow>
               r_depthMetadata result = JObj [(''metadataCid'', metadataCid metadata_request)]"
    using fall by (elim conjE)
  obtain img dev rest where i: "imageCid metadata_request = JStr img"
    and d: "toString_js (deviceAddress metadata_request) = Inr dev"
    and tr: "calls_of (register_ip store_down_env metadata_request) fresh
               = AxiosGet (IPFS_GATEWAY store_down_env @ ''/ipfs/'' @ ''Qmeta1'') # rest"
    and pub: "AxiosPost pinata_url
                (AssetDoc
                   \<lparr> ip_title = ''DeepShare Evidence - ''
                                 @ show_nat (clock store_down_env TitleTime),
                     ip_description =
                       ''Evidence capture with depth mapping. Full depth data stored at: ''
                       @ ''https://gateway.pinata.cloud/ipfs/'' @ ''Qmeta1'',
                     ip_createdAt = show_nat (clock store_down_env CreatedAtTime div 1000),
                     ip_creators = [\<lparr> c_name = ''DeepShare Device'',
                                      c_address = deviceAddress metadata_request,
                                      c_contributionPercent = 100 \<rparr>],
                     ip_image = ''ipfs://'' @ img,
                     ip_imageHash = ''0x'' @ sha256_hex store_down_env img,
                     ip_mediaUrl = ''ipfs://'' @ ''Qmeta1'',
                     ip_mediaHash = ''0x'' @ sha256_hex store_down_env ''Qmeta1'',
                     ip_mediaType = ''application/json'',
                     ip_attributes =
                       [(''Platform'', JStr ''DeepShare''),
                        (''Type'', JStr ''Evidence with Depth Mapping''),
                        (''Device'', deviceAddress metadata_request),
                        (''ImageCID'', JStr img),
                        (''MetadataCID'', JStr ''Qmeta1''),
                        (''DepthDataURL'',
                         JStr (''https://gateway.pinata.cloud/ipfs/'' @ ''Qmeta1''))] \<rparr>)
                \<in> set rest"
    using fall p by (elim conjE) blast
  have img: "img = ''Qimg1''"
    using i by (simp add: metadata_request_def sample_request_def)
  have doc: "\<lparr> ip_title = ''DeepShare Evidence - ''
                                 @ show_nat (clock store_down_env TitleTime),
                     ip_description =
                       ''Evidence capture with depth mapping. Full depth data stored at: ''
                       @ ''https://gateway.pinata.cloud/ipfs/'' @ ''Qmeta1'',
                     ip_createdAt = show_nat (clock store_down_env CreatedAtTime div 1000),
                     ip_creators = [\<lparr> c_name = ''DeepShare Device'',
                                      c_address = deviceAddress metadata_request,
                                      c_contributionPercent = 100 \<rparr>],
                     ip_image = ''ipfs://'' @ img,
                     ip_imageHash = ''0x'' @ sha256_hex store_down_env img,
                     ip_mediaUrl = ''ipfs://'' @ ''Qmeta1'',
                     ip_mediaHash = ''0x'' @ sha256_hex store_down_env ''Qmeta1'',
                     ip_mediaType = ''application/json'',
                     ip_attributes =
                       [(''Platform'', JStr ''DeepShare''),
                        (''Type'', JStr ''Evidence with Depth Mapping''),
                        (''Device'', deviceAddress metadata_request),
                        (''ImageCID'', JStr img),
                        (''MetadataCID'', JStr ''Qmeta1''),
                        (''DepthDataURL'',
                         JStr (''https://gateway.pinata.cloud/ipfs/'' @ ''Qmeta1''))] \<rparr>
             = fallback_asset_doc"
    by (simp add: img fallback_asset_doc_def metadata_request_def sample_request_def
        store_down_env_def sample_env_def digit_char_def)
  have url: "IPFS_GATEWAY store_down_env @ ''/ipfs/'' @ ''Qmeta1''
               = ''https://gateway.pinata.cloud/ipfs/Qmeta1''"
    by (simp add: store_down_env_def sample_env_def)
  have published: "\<exists>rest. calls_of (register_ip store_down_env metadata_request) fresh
                = AxiosGet ''https://gateway.pinata.cloud/ipfs/Qmeta1'' # rest
         \<and> AxiosPost pinata_url (AssetDoc fallback_asset_doc) \<in> set rest"
    using tr pub unfolding doc url by (intro exI conjI)
  obtain result where r: "success_data (fst (register_ip store_down_env metadata_request fresh))
                            = Some result"
    using store_down_metadata_success by (elim exE)
  have "r_depthMetadata result = JObj [(''metadataCid'', JStr ''Qmeta1'')]"
    using echo r m by simp
  with r have ex: "\<exists>result. success_data (fst (register_ip store_down_env metadata_request fresh))
                  = Some result
         \<and> r_depthMetadata result = JObj [(''metadataCid'', JStr ''Qmeta1'')]"
    by (intro exI conjI)
  show ?thesis
    by (intro conjI h p ex published)
qed



text \<open>
  C9. The media type of the asset metadata document. Every asset metadata document that
  a run of the handler publishes has the media type \<open>application/json\<close> exactly when the
  request carries a metadata content identifier (a truthy \<open>metadataCid\<close>, which is what
  the handler tests), and \<open>image/jpeg\<close> exactly when it carries none.
\<close>

theorem media_type_selection:
  assumes "AxiosPost u (AssetDoc d) \<in> set (calls_of (register_ip env body) s)"
  shows "(ip_mediaType d = ''application/json'') = truthy (metadataCid body)
         \<and> (ip_mediaType d = ''image/jpeg'') = (\<not> truthy (metadataCid body))"
proof -
  obtain img dev meta murl where "build_ipMetadata env body img dev meta murl = Inr d"
    using run_postD [OF handler_asset_docs, of env body s] assms by blast
  then show ?thesis
    by (simp add: build_ipMetadata_mediaType)
qed

theorem media_type_selection_witness:
  "AxiosPost pinata_url (AssetDoc sample_asset_doc)
     \<in> set (calls_of (register_ip sample_env sample_request) fresh)
   \<and> \<not> truthy (metadataCid sample_request)
   \<and> ip_mediaType sample_asset_doc = ''image/jpeg''"
  using media_type_selection [OF sample_run_docs] sample_run_docs
  by (simp add: sample_request_def)

text \<open>
  C10. A revenue share that does not parse. \<open>parseInt\<close> of the string \<open>abc\<close> is \<open>NaN\<close>,
  which is neither below 0 nor above 100. So a request that is valid but for a revenue
  share of \<open>abc\<close> is never answered 400, every registration call of its run carries
  \<open>NaN\<close> as the revenue share, and there is such a run: in the concrete environment
  the chain registration is called with \<open>NaN\<close>.
\<close>

theorem nan_rev_share_passes:
  "parseInt (JStr ''abc'') = Inr NaN
   \<and> \<not> (num_lt NaN 0 \<or> num_gt NaN 100)
   \<and> (\<forall>env body s. otherwise_valid env body \<and> commercialRevShare body = JStr ''abc'' \<longrightarrow>
         (\<forall>resp. fst (register_ip env body s) = Inr resp \<longrightarrow> status resp \<noteq> 400)
         \<and> (\<forall>a. RegisterIpAsset a \<in> set (calls_of (register_ip env body) s) \<longrightarrow>
               a_commercialRevShare a = NaN)
         \<and> (\<forall>result. success_data (fst (register_ip env body s)) = Some result \<longrightarrow>
               r_commercialRevShare result = NaN))
   \<and> (\<exists>a. RegisterIpAsset a \<in> set (calls_of (register_ip sample_env
               (sample_request\<lparr>commercialRevShare := JStr ''abc''\<rparr>)) fresh)
           \<and> a_commercialRevShare a = NaN)"
proof -
  have parse: "parseInt (JStr ''abc'') = Inr NaN"
    by (rule parseInt_samples)
  have range: "\<not> (num_lt NaN 0 \<or> num_gt NaN 100)"
    by simp
  have general: "\<forall>env body s. otherwise_valid env body \<and> commercialRevShare body = JStr ''abc'' \<longrightarrow>
         (\<forall>resp. fst (register_ip env body s) = Inr resp \<longrightarrow> status resp \<noteq> 400)
         \<and> (\<forall>a. RegisterIpAsset a \<in> set (calls_of (register_ip env body) s) \<longrightarrow>
               a_commercialRevShare a = NaN)
         \<and> (\<forall>result. success_data (fst (register_ip env body s)) = Some result \<longrightarrow>
               r_commercialRevShare result = NaN)"
  proof (intro allI impI)
    fix env body s
    assume a: "otherwise_valid env body \<and> commercialRevShare body = JStr ''abc''"
    then have "resolveRevShare env body = Inr NaN"
      by (simp add: resolveRevShare_def parseInt_samples)
    then show "(\<forall>resp. fst (register_ip env body s) = Inr resp \<longrightarrow> status resp \<noteq> 400)
         \<and> (\<forall>a. RegisterIpAsset a \<in> set (calls_of (register_ip env body) s) \<longrightarrow>
               a_commercialRevShare a = NaN)
         \<and> (\<forall>result. success_data (fst (register_ip env body s)) = Some result \<longrightarrow>
               r_commercialRevShare result = NaN)"
      using a by (intro handler_accepts) simp_all
  qed
  have r: "resolveRevShare sample_env (sample_request\<lparr>commercialRevShare := JStr ''abc''\<rparr>)
             = Inr NaN"
    by (simp add: resolveRevShare_def parseInt_samples)
  obtain a where a: "RegisterIpAsset a \<in> set (calls_of (register_ip sample_env
                       (sample_request\<lparr>commercialRevShare := JStr ''abc''\<rparr>)) fresh)"
    using sample_registers [OF r] by auto
  then have "a_commercialRevShare a = NaN"
    using r sample_otherwise_valid [of "JStr ''abc''"]
      handler_accepts [of sample_env "sample_request\<lparr>commercialRevShare := JStr ''abc''\<rparr>" NaN fresh]
    by simp
  with a have concrete: "\<exists>a. RegisterIpAsset a \<in> set (calls_of (register_ip sample_env
               (sample_request\<lparr>commercialRevShare := JStr ''abc''\<rparr>)) fresh)
           \<and> a_commercialRevShare a = NaN"
    by blast
  show ?thesis
    by (rule conjI [OF parse conjI [OF range conjI [OF general concrete]]])
qed

theorem nan_rev_share_passes_witness:
  "otherwise_valid sample_env (sample_request\<lparr>commercialRevShare := JStr ''abc''\<rparr>)
   \<and> commercialRevShare (sample_request\<lparr>commercialRevShare := JStr ''abc''\<rparr>) = JStr ''abc''
   \<and> (\<exists>result a.
         success_data (fst (register_ip sample_env
           (sample_request\<lparr>commercialRevShare := JStr ''abc''\<rparr>) fresh)) = Some result
         \<and> r_commercialRevShare result = NaN
         \<and> RegisterIpAsset a \<in> set (calls_of (register_ip sample_env
               (sample_request\<lparr>commercialRevShare := JStr ''abc''\<rparr>)) fresh)
         \<and> a_commercialRevShare a = NaN)"
proof -
  have r: "resolveRevShare sample_env (sample_request\<lparr>commercialRevShare := JStr ''abc''\<rparr>)
             = Inr NaN"
    by (simp add: resolveRevShare_def parseInt_samples)
  have v: "otherwise_valid sample_env (sample_request\<lparr>commercialRevShare := JStr ''abc''\<rparr>)
           \<and> commercialRevShare (sample_request\<lparr>commercialRevShare := JStr ''abc''\<rparr>)
               = JStr ''abc''"
    by (simp add: sample_otherwise_valid)
  from nan_rev_share_passes
  have "(\<forall>a. RegisterIpAsset a \<in> set (calls_of (register_ip sample_env
                 (sample_request\<lparr>commercialRevShare := JStr ''abc''\<rparr>)) fresh) \<longrightarrow>
               a_commercialRevShare a = NaN)
         \<and> (\<forall>result. success_data (fst (register_ip sample_env
                 (sample_request\<lparr>commercialRevShare := JStr ''abc''\<rparr>) fresh)) = Some result \<longrightarrow>
               r_commercialRevShare result = NaN)"
    using v by blast
  then show ?thesis
    using v sample_registers [OF r] by (simp (no_asm_use)) blast
qed

end
